theory Spec2Isabelle
  imports Main "HOL-Library.Word" "HOL-Library.AList"
begin

unbundle bit_operations_syntax

section \<open>Basic types\<close>

text \<open>
  Go's \<^verbatim>\<open>[]byte\<close> is a list of 8-bit words.  \<^verbatim>\<open>type Alg string\<close> is an open string
  type: any string is an algorithm identifier, three of them are named.
\<close>

type_synonym byte = "8 word"
type_synonym bytes = "byte list"
type_synonym Alg = string

definition AlgRS256 :: Alg where
  "AlgRS256 = ''RS256''"

definition AlgES256 :: Alg where
  "AlgES256 = ''ES256''"

definition AlgEdDSA :: Alg where
  "AlgEdDSA = ''EdDSA''"

text \<open>
  Errors are values.  The two kinds of error of Go's \<^verbatim>\<open>encoding/asn1\<close> keep their
  message; the errors this package builds with \<^verbatim>\<open>fmt.Errorf\<close> are one constructor per
  format string, carrying the formatted arguments and the wrapped error (\<^verbatim>\<open>%w\<close>).
  \<open>ErrExternal\<close> is an error returned by a collaborator (store, encryptor, policy,
  payload builder) or by a library primitive.  \<open>Panic\<close> is a run-time panic (a nil
  pointer dereference, a library precondition), which ends the call.
\<close>

datatype asn1_error = SyntaxError string | StructuralError string

datatype error =
    ErrAsn1Unmarshal asn1_error
  | ErrTooLarge Alg
  | ErrEcdsaConvert error
  | ErrNoActiveKey Alg
  | ErrKeyNotFound string
  | ErrUnsupportedAlgorithm Alg
  | ErrUnknownAlg Alg
  | ErrMarshalPKCS8 error
  | ErrParsePKCS8 error
  | ErrUnsupportedPrivateKeyType
  | ErrDecryptKey string error
  | ErrParseKey string error
  | ErrInitKey Alg error
  | ErrRotate Alg error
  | ErrRotationErrors "error list"
  | ErrMasterKeyLength nat
  | ErrCipherInit error
  | ErrGcmInit error
  | ErrNonce error
  | ErrInvalidNonceSize nat
  | ErrDecrypt error
  | ErrVerify string
  | ErrVerifyRsa error
  | ErrExternal string
  | Panic string

section \<open>Big integers as bytes\<close>

text \<open>
  \<^verbatim>\<open>(*big.Int).Bytes\<close> returns the absolute value as a big-endian byte slice with no
  leading zero byte (the empty slice for 0); \<^verbatim>\<open>SetBytes\<close> reads a big-endian
  unsigned integer.
\<close>

function be_bytes :: "nat \<Rightarrow> bytes" where
  "be_bytes n = (if n = 0 then [] else be_bytes (n div 256) @ [of_nat (n mod 256)])"
  by pat_completeness auto
termination
  by (relation "measure (\<lambda>n. n)") auto

declare be_bytes.simps [simp del]

definition Bytes :: "int \<Rightarrow> bytes" where
  "Bytes x = be_bytes (nat \<bar>x\<bar>)"

definition SetBytes :: "bytes \<Rightarrow> nat" where
  "SetBytes bs = foldl (\<lambda>a b. a * 256 + unat b) 0 bs"

text \<open>
  \<^verbatim>\<open>copy(raw[lo:hi], src)\<close> on a slice of \<open>raw\<close>: the first
  \<open>min (hi - lo) (length src)\<close> bytes of \<open>src\<close> overwrite \<open>raw\<close> from index \<open>lo\<close>.
\<close>

definition copy_at :: "bytes \<Rightarrow> nat \<Rightarrow> nat \<Rightarrow> bytes \<Rightarrow> bytes" where
  "copy_at raw lo hi src =
     (let n = min (hi - lo) (length src)
      in take lo raw @ take n src @ drop (lo + n) raw)"

section \<open>The DER decoder of \<^verbatim>\<open>encoding/asn1\<close>, for \<^verbatim>\<open>struct { R, S *big.Int }\<close>\<close>

text \<open>
  \<^verbatim>\<open>asn1.Unmarshal(der, &sig)\<close> belongs to Go's standard library.  What follows is its
  path for a struct of two \<^verbatim>\<open>*big.Int\<close> fields: \<^verbatim>\<open>parseTagAndLength\<close>,
  \<^verbatim>\<open>parseBase128Int\<close>, \<^verbatim>\<open>checkInteger\<close>, \<^verbatim>\<open>parseBigInt\<close> and the struct and
  big-integer cases of \<^verbatim>\<open>parseField\<close>.  Messages that Go formats with run-time detail
  are shortened.
\<close>

record tagAndLength =
  t_cls :: nat
  t_tag :: nat
  t_length :: nat
  t_isCompound :: bool

function parseBase128Int_loop ::
  "bytes \<Rightarrow> nat \<Rightarrow> nat \<Rightarrow> nat \<Rightarrow> asn1_error + (nat \<times> nat)" where
  "parseBase128Int_loop bs offset shifted ret64 =
     (if offset < length bs then
        (if shifted = 5 then Inl (StructuralError ''base 128 integer too large'')
         else
           let b = bs ! offset in
           if shifted = 0 \<and> b = 0x80 then Inl (SyntaxError ''integer is not minimally encoded'')
           else
             let ret64' = ret64 * 128 + unat (b AND 0x7f) in
             if b AND 0x80 = 0 then
               (if ret64' > 2147483647 then Inl (StructuralError ''base 128 integer too large'')
                else Inr (ret64', offset + 1))
             else parseBase128Int_loop bs (offset + 1) (shifted + 1) ret64')
      else Inl (SyntaxError ''truncated base 128 integer''))"
  by pat_completeness auto
termination
  by (relation "measure (\<lambda>(bs, offset, shifted, ret64). length bs - offset)") auto

declare parseBase128Int_loop.simps [simp del]

definition parseBase128Int :: "bytes \<Rightarrow> nat \<Rightarrow> asn1_error + (nat \<times> nat)" where
  "parseBase128Int bs initOffset = parseBase128Int_loop bs initOffset 0 0"

text \<open>The loop over the \<open>numBytes\<close> bytes of a long-form length.\<close>

fun parseLength_loop :: "bytes \<Rightarrow> nat \<Rightarrow> nat \<Rightarrow> nat \<Rightarrow> asn1_error + (nat \<times> nat)" where
  "parseLength_loop bs 0 offset len = Inr (len, offset)"
| "parseLength_loop bs (Suc n) offset len =
     (if offset \<ge> length bs then Inl (SyntaxError ''truncated tag or length'')
      else
        let b = bs ! offset in
        if len \<ge> 2 ^ 23 then Inl (StructuralError ''length too large'')
        else
          let len' = len * 256 + unat b in
          if len' = 0 then Inl (StructuralError ''superfluous leading zeros in length'')
          else parseLength_loop bs n (offset + 1) len')"

definition parseLength :: "bytes \<Rightarrow> nat \<Rightarrow> asn1_error + (nat \<times> nat)" where
  "parseLength bs offset =
     (if offset \<ge> length bs then Inl (SyntaxError ''truncated tag or length'')
      else
        let b = bs ! offset in
        if b AND 0x80 = 0 then Inr (unat (b AND 0x7f), offset + 1)
        else
          let numBytes = unat (b AND 0x7f) in
          if numBytes = 0 then Inl (SyntaxError ''indefinite length found (not DER)'')
          else
            (case parseLength_loop bs numBytes (offset + 1) 0 of
               Inl e \<Rightarrow> Inl e
             | Inr (len, offset') \<Rightarrow>
                 if len < 0x80 then Inl (StructuralError ''non-minimal length'')
                 else Inr (len, offset')))"

definition parseTagAndLength :: "bytes \<Rightarrow> nat \<Rightarrow> asn1_error + (tagAndLength \<times> nat)" where
  "parseTagAndLength bs initOffset =
     (if initOffset \<ge> length bs then Inl (SyntaxError ''internal error in parseTagAndLength'')
      else
        let b = bs ! initOffset;
            cls = unat (drop_bit 6 b);
            isCompound = (b AND 0x20 = 0x20);
            tag = unat (b AND 0x1f)
        in
        (case (if tag = 0x1f then
                 (case parseBase128Int bs (initOffset + 1) of
                    Inl e \<Rightarrow> Inl e
                  | Inr (tag', offset) \<Rightarrow>
                      if tag' < 0x1f then Inl (SyntaxError ''non-minimal tag'')
                      else Inr (tag', offset))
               else Inr (tag, initOffset + 1)) of
           Inl e \<Rightarrow> Inl e
         | Inr (tag', offset) \<Rightarrow>
             (case parseLength bs offset of
                Inl e \<Rightarrow> Inl e
              | Inr (len, offset') \<Rightarrow>
                  Inr (\<lparr>t_cls = cls, t_tag = tag', t_length = len, t_isCompound = isCompound\<rparr>,
                       offset'))))"

definition checkInteger :: "bytes \<Rightarrow> asn1_error option" where
  "checkInteger bs =
     (if length bs = 0 then Some (StructuralError ''empty integer'')
      else if length bs = 1 then None
      else if (bs ! 0 = 0 \<and> (bs ! 1) AND 0x80 = 0) \<or> (bs ! 0 = 0xff \<and> (bs ! 1) AND 0x80 = 0x80)
        then Some (StructuralError ''integer not minimally-encoded'')
      else None)"

definition parseBigInt :: "bytes \<Rightarrow> asn1_error + int" where
  "parseBigInt bs =
     (case checkInteger bs of
        Some e \<Rightarrow> Inl e
      | None \<Rightarrow>
          if length bs > 0 \<and> (bs ! 0) AND 0x80 = 0x80
          then Inr (- (int (SetBytes (map (\<lambda>b. NOT b) bs)) + 1))
          else Inr (int (SetBytes bs)))"

text \<open>\<^verbatim>\<open>parseField\<close> for a field of type \<^verbatim>\<open>*big.Int\<close>: universal class, tag INTEGER (2), primitive.\<close>

definition parseField_bigInt :: "bytes \<Rightarrow> nat \<Rightarrow> asn1_error + (int \<times> nat)" where
  "parseField_bigInt bs initOffset =
     (if initOffset = length bs then Inl (SyntaxError ''sequence truncated'')
      else
        (case parseTagAndLength bs initOffset of
           Inl e \<Rightarrow> Inl e
         | Inr (t, offset) \<Rightarrow>
             if t_cls t \<noteq> 0 \<or> t_tag t \<noteq> 2 \<or> t_isCompound t
               then Inl (StructuralError ''tags do not match'')
             else if offset + t_length t > length bs then Inl (SyntaxError ''data truncated'')
             else
               (case parseBigInt (take (t_length t) (drop offset bs)) of
                  Inl e \<Rightarrow> Inl e
                | Inr v \<Rightarrow> Inr (v, offset + t_length t))))"

record ecdsaSignature =
  R :: int
  S :: int

text \<open>
  \<^verbatim>\<open>parseField\<close> for the struct: universal class, tag SEQUENCE (16), constructed; the two
  fields are parsed from the content one after the other; bytes of the content that follow
  the second field are allowed.
\<close>

definition parseField_ecdsaSignature :: "bytes \<Rightarrow> asn1_error + (ecdsaSignature \<times> nat)" where
  "parseField_ecdsaSignature bs =
     (if 0 = length bs then Inl (SyntaxError ''sequence truncated'')
      else
        (case parseTagAndLength bs 0 of
           Inl e \<Rightarrow> Inl e
         | Inr (t, offset) \<Rightarrow>
             if t_cls t \<noteq> 0 \<or> t_tag t \<noteq> 16 \<or> \<not> t_isCompound t
               then Inl (StructuralError ''tags do not match'')
             else if offset + t_length t > length bs then Inl (SyntaxError ''data truncated'')
             else
               let innerBytes = take (t_length t) (drop offset bs) in
               (case parseField_bigInt innerBytes 0 of
                  Inl e \<Rightarrow> Inl e
                | Inr (r, innerOffset) \<Rightarrow>
                    (case parseField_bigInt innerBytes innerOffset of
                       Inl e \<Rightarrow> Inl e
                     | Inr (s, innerOffset') \<Rightarrow>
                         Inr (\<lparr>R = r, S = s\<rparr>, offset + t_length t)))))"

text \<open>\<^verbatim>\<open>asn1.Unmarshal\<close> returns the decoded value and the bytes after it (\<open>rest\<close>).\<close>

definition asn1_Unmarshal :: "bytes \<Rightarrow> asn1_error + (ecdsaSignature \<times> bytes)" where
  "asn1_Unmarshal b =
     (case parseField_ecdsaSignature b of
        Inl e \<Rightarrow> Inl e
      | Inr (sig, offset) \<Rightarrow> Inr (sig, drop offset b))"

section \<open>Signature codec\<close>

definition DERToRawECDSA :: "Alg \<Rightarrow> bytes \<Rightarrow> error + bytes" where
  "DERToRawECDSA alg der =
     (case asn1_Unmarshal der of
        Inl err \<Rightarrow> Inl (ErrAsn1Unmarshal err)
      | Inr (sig, rest) \<Rightarrow>
          let size = 32;
              rBytes = Bytes (R sig);
              sBytes = Bytes (S sig)
          in
          if length rBytes > size \<or> length sBytes > size then Inl (ErrTooLarge alg)
          else
            let raw = replicate (size * 2) 0;
                raw1 = copy_at raw (size - length rBytes) size rBytes;
                raw2 = copy_at raw1 (2 * size - length sBytes) (2 * size) sBytes
            in Inr raw2)"

text \<open>The kind of an error: its format string, without the formatted arguments.\<close>

datatype error_kind = KAsn1Unmarshal | KTooLarge | KOther

fun kind_of :: "error \<Rightarrow> error_kind" where
  "kind_of (ErrAsn1Unmarshal e) = KAsn1Unmarshal"
| "kind_of (ErrTooLarge a) = KTooLarge"
| "kind_of e = KOther"

section \<open>Keys, cached keys and collaborators\<close>

text \<open>
  \<^verbatim>\<open>time.Time\<close> is an instant in nanoseconds and \<^verbatim>\<open>time.Duration\<close> a number of
  nanoseconds; \<^verbatim>\<open>t.Add(d)\<close> is \<open>t + d\<close> and \<^verbatim>\<open>t.Before(u)\<close> is \<open>t < u\<close>.
\<close>

record RotationConfig =
  TTL :: int

record EncryptedKey =
  Nonce :: bytes
  Ciphertext :: bytes

record Key =
  KID :: string
  Alg :: Alg
  IsActive :: bool
  CreatedAt :: int
  ExpiresAt :: "int option"
  EncryptedKey :: EncryptedKey

text \<open>
  \<^verbatim>\<open>crypto.PublicKey\<close> and \<^verbatim>\<open>crypto.Signer\<close> are interfaces; the dynamic types the
  package distinguishes are the constructors.  An RSA and an ECDSA private key embed
  their public key; an Ed25519 private key is 64 bytes whose last 32 are the public key.
  \<open>OtherPublicKey\<close> is any other dynamic type, or the nil interface.
\<close>

datatype PublicKey =
    RSAPublicKey int int
  | ECDSAPublicKey int int
  | Ed25519PublicKey bytes
  | OtherPublicKey

datatype Signer =
    RSAPrivateKey int int int
  | ECDSAPrivateKey int int int
  | Ed25519PrivateKey bytes

fun Public :: "Signer \<Rightarrow> PublicKey" where
  "Public (RSAPrivateKey n e d) = RSAPublicKey n e"
| "Public (ECDSAPrivateKey x y d) = ECDSAPublicKey x y"
| "Public (Ed25519PrivateKey p) = Ed25519PublicKey (take 32 (drop 32 p))"

text \<open>What \<^verbatim>\<open>x509.ParsePKCS8PrivateKey\<close> returns: a key of one of the three kinds, or of another kind.\<close>

datatype ParsedKey = ParsedSigner Signer | ParsedOther

datatype Hash = Hash0 | SHA256

record CachedKey =
  key :: "Key option"
  priv :: "Signer option"
  pub :: PublicKey

text \<open>
  The two maps of the manager hold pointers, which may be nil: an association list from
  keys to optional values, in the order of iteration.  The read/write lock is not
  modelled: every operation runs alone.
\<close>

record KeyManager =
  active :: "(Alg \<times> CachedKey option) list"
  cache :: "(string \<times> CachedKey option) list"

text \<open>\<^verbatim>\<open>m[k]\<close> on a map of pointers: nil when the key is absent or maps to nil.\<close>

definition lookup :: "('k \<times> 'v option) list \<Rightarrow> 'k \<Rightarrow> 'v option" where
  "lookup m k = (case map_of m k of None \<Rightarrow> None | Some v \<Rightarrow> v)"

text \<open>
  The collaborators (\<^verbatim>\<open>Store\<close>, \<^verbatim>\<open>Encryptor\<close>, \<^verbatim>\<open>RotationPolicy\<close>) and the library
  primitives the manager calls (clock, random source, key generation, PKCS#8, signing,
  hashing, verification).  Those with effects or random results transform a world \<open>'w\<close>.
\<close>

record 'w deps =
  store_List :: "'w \<Rightarrow> (error + Key list) \<times> 'w"
  store_Rotate :: "Key \<Rightarrow> Key option \<Rightarrow> 'w \<Rightarrow> error option \<times> 'w"
  enc_Encrypt :: "bytes \<Rightarrow> 'w \<Rightarrow> (error + EncryptedKey) \<times> 'w"
  enc_Decrypt :: "EncryptedKey \<Rightarrow> 'w \<Rightarrow> (error + bytes) \<times> 'w"
  policy :: "'w \<Rightarrow> (error + RotationConfig) \<times> 'w"
  time_Now :: "'w \<Rightarrow> int \<times> 'w"
  time_Format :: "int \<Rightarrow> string"
  rand_Read :: "nat \<Rightarrow> 'w \<Rightarrow> (error option \<times> bytes) \<times> 'w"
  rsa_GenerateKey :: "nat \<Rightarrow> 'w \<Rightarrow> (error + Signer) \<times> 'w"
  ecdsa_GenerateKey :: "'w \<Rightarrow> (error + Signer) \<times> 'w"
  ed25519_GenerateKey :: "'w \<Rightarrow> (error + Signer) \<times> 'w"
  x509_MarshalPKCS8PrivateKey :: "Signer \<Rightarrow> error + bytes"
  x509_ParsePKCS8PrivateKey :: "bytes \<Rightarrow> error + ParsedKey"
  signer_Sign :: "Signer \<Rightarrow> bytes \<Rightarrow> Hash \<Rightarrow> 'w \<Rightarrow> (error + bytes) \<times> 'w"
  sha256 :: "bytes \<Rightarrow> bytes"
  rsa_VerifyPKCS1v15 :: "PublicKey \<Rightarrow> bytes \<Rightarrow> bytes \<Rightarrow> error option"
  ecdsa_Verify :: "PublicKey \<Rightarrow> bytes \<Rightarrow> nat \<Rightarrow> nat \<Rightarrow> bool"
  ed25519_Verify :: "PublicKey \<Rightarrow> bytes \<Rightarrow> bytes \<Rightarrow> bool"

section \<open>Utilities (utils.go)\<close>

text \<open>\<^verbatim>\<open>base64.RawURLEncoding\<close>: the URL alphabet, no padding.\<close>

definition encodeURL :: string where
  "encodeURL = ''ABCDEFGHIJKLMNOPQRSTUVWXYZabcdefghijklmnopqrstuvwxyz0123456789-_''"

definition b64char :: "byte \<Rightarrow> char" where
  "b64char i = encodeURL ! unat (i AND 0x3f)"

fun b64 :: "bytes \<Rightarrow> string" where
  "b64 [] = []"
| "b64 [a] = [b64char (drop_bit 2 a), b64char (push_bit 4 (a AND 3))]"
| "b64 [a, b] =
     [b64char (drop_bit 2 a), b64char (push_bit 4 (a AND 3) OR drop_bit 4 b),
      b64char (push_bit 2 (b AND 0xf))]"
| "b64 (a # b # c # rest) =
     [b64char (drop_bit 2 a), b64char (push_bit 4 (a AND 3) OR drop_bit 4 b),
      b64char (push_bit 2 (b AND 0xf) OR drop_bit 6 c), b64char (c AND 0x3f)] @ b64 rest"

definition b64big :: "int \<Rightarrow> string" where
  "b64big i = b64 (Bytes i)"

definition generateKID :: "'w deps \<Rightarrow> Alg \<Rightarrow> 'w \<Rightarrow> string \<times> 'w" where
  "generateKID d alg w =
     (case rand_Read d 12 w of
        ((None, buf), w1) \<Rightarrow> (alg @ ''_'' @ b64 buf, w1)
      | ((Some err, buf), w1) \<Rightarrow>
          (case time_Now d w1 of
             (now, w2) \<Rightarrow> (alg @ ''_'' @ b64 (map (\<lambda>c. of_char c) (time_Format d now) @ buf), w2)))"

definition signingOptions :: "Alg \<Rightarrow> error + Hash" where
  "signingOptions alg =
     (if alg = AlgRS256 \<or> alg = AlgES256 then Inr SHA256
      else if alg = AlgEdDSA then Inr Hash0
      else Inl (ErrUnsupportedAlgorithm alg))"

definition marshalPKCS8 :: "'w deps \<Rightarrow> Signer \<Rightarrow> error + bytes" where
  "marshalPKCS8 d p =
     (case x509_MarshalPKCS8PrivateKey d p of
        Inl err \<Rightarrow> Inl (ErrMarshalPKCS8 err)
      | Inr der \<Rightarrow> Inr der)"

definition parsePrivateKey :: "'w deps \<Rightarrow> bytes \<Rightarrow> error + Signer" where
  "parsePrivateKey d der =
     (case x509_ParsePKCS8PrivateKey d der of
        Inl err \<Rightarrow> Inl (ErrParsePKCS8 err)
      | Inr (ParsedSigner k) \<Rightarrow> Inr k
      | Inr ParsedOther \<Rightarrow> Inl ErrUnsupportedPrivateKeyType)"

definition verifySignature :: "'w deps \<Rightarrow> Alg \<Rightarrow> PublicKey \<Rightarrow> bytes \<Rightarrow> bytes \<Rightarrow> error option" where
  "verifySignature d alg pk payload sig =
     (if alg = AlgRS256 then
        (case pk of
           RSAPublicKey n e \<Rightarrow>
             (case rsa_VerifyPKCS1v15 d pk (sha256 d payload) sig of
                Some err \<Rightarrow> Some (ErrVerifyRsa err)
              | None \<Rightarrow> None)
         | _ \<Rightarrow> Some (ErrVerify ''verify: public key is not RSA''))
      else if alg = AlgES256 then
        (case pk of
           ECDSAPublicKey x y \<Rightarrow>
             if length sig mod 2 \<noteq> 0 then Some (ErrVerify ''verify: invalid ECDSA signature length'')
             else
               let half = length sig div 2;
                   r = SetBytes (take half sig);
                   s = SetBytes (drop half sig)
               in if \<not> ecdsa_Verify d pk (sha256 d payload) r s
                  then Some (ErrVerify ''verify: ecdsa signature invalid'')
                  else None
         | _ \<Rightarrow> Some (ErrVerify ''verify: public key is not ECDSA''))
      else if alg = AlgEdDSA then
        (case pk of
           Ed25519PublicKey p \<Rightarrow>
             if \<not> ed25519_Verify d pk payload sig
             then Some (ErrVerify ''verify: eddsa signature invalid'')
             else None
         | _ \<Rightarrow> Some (ErrVerify ''verify: public key is not Ed25519''))
      else Some (ErrVerify (''verify: unsupported alg '' @ alg)))"

definition generatePrivateKey :: "'w deps \<Rightarrow> Alg \<Rightarrow> 'w \<Rightarrow> (error + Signer) \<times> 'w" where
  "generatePrivateKey d alg w =
     (if alg = AlgRS256 then rsa_GenerateKey d 2048 w
      else if alg = AlgES256 then ecdsa_GenerateKey d w
      else if alg = AlgEdDSA then ed25519_GenerateKey d w
      else (Inl (ErrUnknownAlg alg), w))"

section \<open>The public-key-set export (utils.go, jwk.go)\<close>

record JWK =
  Kty :: string
  Kid :: string
  JAlg :: string
  Use :: string
  N :: string
  E :: string
  Crv :: string
  X :: string
  Y :: string

record JWKS =
  Keys :: "JWK list"

text \<open>One iteration of the loop of \<^verbatim>\<open>buildJWKS\<close>: the entry appended, or none (\<^verbatim>\<open>continue\<close>).\<close>

definition jwk_of :: "CachedKey option \<Rightarrow> JWK option" where
  "jwk_of ckp =
     (case ckp of
        None \<Rightarrow> None
      | Some ck \<Rightarrow>
          (case key ck of
             None \<Rightarrow> None
           | Some k0 \<Rightarrow>
               let k = \<lparr>Kty = [], Kid = KID k0, JAlg = Alg k0, Use = ''sig'',
                        N = [], E = [], Crv = [], X = [], Y = []\<rparr>
               in (case pub ck of
                     RSAPublicKey n e \<Rightarrow> Some (k\<lparr>Kty := ''RSA'', N := b64big n, E := b64big e\<rparr>)
                   | ECDSAPublicKey x y \<Rightarrow>
                       Some (k\<lparr>Kty := ''EC'', Crv := ''P-256'', X := b64big x, Y := b64big y\<rparr>)
                   | Ed25519PublicKey p \<Rightarrow>
                       Some (k\<lparr>Kty := ''OKP'', Crv := ''Ed25519'', X := b64 p\<rparr>)
                   | OtherPublicKey \<Rightarrow> None)))"

fun buildJWKS_loop :: "(string \<times> CachedKey option) list \<Rightarrow> JWK list \<Rightarrow> JWK list" where
  "buildJWKS_loop [] out = out"
| "buildJWKS_loop ((kid, ckp) # rest) out =
     (case jwk_of ckp of
        None \<Rightarrow> buildJWKS_loop rest out
      | Some k \<Rightarrow> buildJWKS_loop rest (out @ [k]))"

definition buildJWKS :: "(string \<times> CachedKey option) list \<Rightarrow> JWKS" where
  "buildJWKS cache_map = \<lparr>Keys = buildJWKS_loop cache_map []\<rparr>"

section \<open>The key manager (manager.go)\<close>

fun ReloadCache_loop ::
  "'w deps \<Rightarrow> Key list \<Rightarrow> (string \<times> CachedKey option) list \<Rightarrow> (Alg \<times> CachedKey option) list
     \<Rightarrow> 'w \<Rightarrow> (error + ((string \<times> CachedKey option) list \<times> (Alg \<times> CachedKey option) list)) \<times> 'w" where
  "ReloadCache_loop d [] newCache newActive w = (Inr (newCache, newActive), w)"
| "ReloadCache_loop d (k # keys) newCache newActive w =
     (case enc_Decrypt d (EncryptedKey k) w of
        (Inl err, w1) \<Rightarrow> (Inl (ErrDecryptKey (KID k) err), w1)
      | (Inr privBytes, w1) \<Rightarrow>
          (case parsePrivateKey d privBytes of
             Inl err \<Rightarrow> (Inl (ErrParseKey (KID k) err), w1)
           | Inr p \<Rightarrow>
               let ck = \<lparr>key = Some k, priv = Some p, pub = Public p\<rparr>;
                   newCache' = AList.update (KID k) (Some ck) newCache;
                   newActive' = (if IsActive k then AList.update (Alg k) (Some ck) newActive
                                 else newActive)
               in ReloadCache_loop d keys newCache' newActive' w1))"

definition ReloadCache :: "'w deps \<Rightarrow> KeyManager \<Rightarrow> 'w \<Rightarrow> error option \<times> KeyManager \<times> 'w" where
  "ReloadCache d km w =
     (case store_List d w of
        (Inl err, w1) \<Rightarrow> (Some err, km, w1)
      | (Inr keys, w1) \<Rightarrow>
          (case ReloadCache_loop d keys [] [] w1 of
             (Inl err, w2) \<Rightarrow> (Some err, km, w2)
           | (Inr (newCache, newActive), w2) \<Rightarrow>
               (None, km\<lparr>cache := newCache, active := newActive\<rparr>, w2)))"

definition activeKey :: "'w deps \<Rightarrow> Alg \<Rightarrow> KeyManager \<Rightarrow> 'w \<Rightarrow> CachedKey option \<times> KeyManager \<times> 'w" where
  "activeKey d alg km w =
     (case lookup (active km) alg of
        Some ck \<Rightarrow> (Some ck, km, w)
      | None \<Rightarrow>
          (case ReloadCache d km w of
             (err, km', w') \<Rightarrow> (lookup (active km') alg, km', w')))"

definition keyByKID :: "'w deps \<Rightarrow> string \<Rightarrow> KeyManager \<Rightarrow> 'w \<Rightarrow> CachedKey option \<times> KeyManager \<times> 'w" where
  "keyByKID d kid km w =
     (case lookup (cache km) kid of
        Some ck \<Rightarrow> (Some ck, km, w)
      | None \<Rightarrow>
          (case ReloadCache d km w of
             (err, km', w') \<Rightarrow> (lookup (cache km') kid, km', w')))"

definition Sign ::
  "'w deps \<Rightarrow> Alg \<Rightarrow> (string \<Rightarrow> 'w \<Rightarrow> (error + bytes) \<times> 'w) \<Rightarrow> KeyManager \<Rightarrow> 'w
     \<Rightarrow> (error + bytes) \<times> KeyManager \<times> 'w" where
  "Sign d alg build km w =
     (case activeKey d alg km w of
        (None, km1, w1) \<Rightarrow> (Inl (ErrNoActiveKey alg), km1, w1)
      | (Some ck, km1, w1) \<Rightarrow>
          (case key ck of
             None \<Rightarrow> (Inl (Panic ''nil pointer dereference''), km1, w1)
           | Some k \<Rightarrow>
               (case build (KID k) w1 of
                  (Inl err, w2) \<Rightarrow> (Inl err, km1, w2)
                | (Inr signingInput, w2) \<Rightarrow>
                    (case signingOptions alg of
                       Inl err \<Rightarrow> (Inl err, km1, w2)
                     | Inr opts \<Rightarrow>
                         let digest = (if opts \<noteq> Hash0 then sha256 d signingInput else signingInput)
                         in (case priv ck of
                               None \<Rightarrow> (Inl (Panic ''nil pointer dereference''), km1, w2)
                             | Some p \<Rightarrow>
                                 (case signer_Sign d p digest opts w2 of
                                    (Inl err, w3) \<Rightarrow> (Inl err, km1, w3)
                                  | (Inr sig, w3) \<Rightarrow>
                                      if alg \<noteq> AlgES256 then (Inr sig, km1, w3)
                                      else
                                        (case DERToRawECDSA alg sig of
                                           Inl err \<Rightarrow> (Inl (ErrEcdsaConvert err), km1, w3)
                                         | Inr rawSig \<Rightarrow> (Inr rawSig, km1, w3))))))))"

definition Verify ::
  "'w deps \<Rightarrow> string \<Rightarrow> bytes \<Rightarrow> bytes \<Rightarrow> KeyManager \<Rightarrow> 'w \<Rightarrow> error option \<times> KeyManager \<times> 'w" where
  "Verify d kid payload sig km w =
     (case keyByKID d kid km w of
        (None, km1, w1) \<Rightarrow> (Some (ErrKeyNotFound kid), km1, w1)
      | (Some ck, km1, w1) \<Rightarrow>
          (case key ck of
             None \<Rightarrow> (Some (Panic ''nil pointer dereference''), km1, w1)
           | Some k \<Rightarrow> (verifySignature d (Alg k) (pub ck) payload sig, km1, w1)))"

definition JWKS_of :: "KeyManager \<Rightarrow> JWKS" where
  "JWKS_of km = buildJWKS (cache km)"

text \<open>
  The search of \<^verbatim>\<open>Rotate\<close> for the current active record: the first record of the
  listing with the algorithm and \<open>IsActive\<close>, copied with the flag cleared; the loop
  stops there (\<^verbatim>\<open>break\<close>).
\<close>

fun find_oldKey :: "Alg \<Rightarrow> Key list \<Rightarrow> Key option" where
  "find_oldKey alg [] = None"
| "find_oldKey alg (k # keys) =
     (if Alg k = alg \<and> IsActive k then Some (k\<lparr>IsActive := False\<rparr>)
      else find_oldKey alg keys)"

text \<open>
  \<^verbatim>\<open>Rotate\<close> in two parts.  \<open>Rotate_prepare\<close> is its body up to the construction of
  \<open>newKey\<close>: the policy, the listing, the search for the old key, key generation,
  serialisation, encryption, the clock and the key id, in the order of the source.
  \<open>Rotate\<close> then hands both records to the store and reloads the cache.
\<close>

definition Rotate_prepare :: "'w deps \<Rightarrow> Alg \<Rightarrow> 'w \<Rightarrow> (error + (Key \<times> Key option)) \<times> 'w" where
  "Rotate_prepare d alg w =
     (case policy d w of
        (Inl err, w1) \<Rightarrow> (Inl err, w1)
      | (Inr pol, w1) \<Rightarrow>
          (case store_List d w1 of
             (Inl err, w2) \<Rightarrow> (Inl err, w2)
           | (Inr keys, w2) \<Rightarrow>
               let oldKey = find_oldKey alg keys in
               (case generatePrivateKey d alg w2 of
                  (Inl err, w3) \<Rightarrow> (Inl err, w3)
                | (Inr newPriv, w3) \<Rightarrow>
                    (case marshalPKCS8 d newPriv of
                       Inl err \<Rightarrow> (Inl err, w3)
                     | Inr privBytes \<Rightarrow>
                         (case enc_Encrypt d privBytes w3 of
                            (Inl err, w4) \<Rightarrow> (Inl err, w4)
                          | (Inr encrypted, w4) \<Rightarrow>
                              (case time_Now d w4 of
                                 (now, w5) \<Rightarrow>
                                   let expires = now + TTL pol in
                                   (case generateKID d alg w5 of
                                      (kid, w6) \<Rightarrow>
                                        (Inr (\<lparr>KID = kid, Alg = alg, IsActive = True,
                                                CreatedAt = now, ExpiresAt = Some expires,
                                                EncryptedKey = encrypted\<rparr>, oldKey), w6))))))))"

definition Rotate :: "'w deps \<Rightarrow> Alg \<Rightarrow> KeyManager \<Rightarrow> 'w \<Rightarrow> error option \<times> KeyManager \<times> 'w" where
  "Rotate d alg km w =
     (case Rotate_prepare d alg w of
        (Inl err, w6) \<Rightarrow> (Some err, km, w6)
      | (Inr (newKey, oldKey), w6) \<Rightarrow>
          (case store_Rotate d newKey oldKey w6 of
             (Some err, w7) \<Rightarrow> (Some err, km, w7)
           | (None, w7) \<Rightarrow> ReloadCache d km w7))"

text \<open>
  The test of \<^verbatim>\<open>RotateExpired\<close> on one entry of the snapshot:
  \<^verbatim>\<open>ck.key.ExpiresAt != nil && ck.key.ExpiresAt.Before(now)\<close>.
\<close>

definition is_expired :: "CachedKey option \<Rightarrow> int \<Rightarrow> error + bool" where
  "is_expired ckp now =
     (case ckp of
        None \<Rightarrow> Inl (Panic ''nil pointer dereference'')
      | Some ck \<Rightarrow>
          (case key ck of
             None \<Rightarrow> Inl (Panic ''nil pointer dereference'')
           | Some k \<Rightarrow> Inr (case ExpiresAt k of None \<Rightarrow> False | Some e \<Rightarrow> e < now)))"

fun RotateExpired_loop ::
  "'w deps \<Rightarrow> int \<Rightarrow> (Alg \<times> CachedKey option) list \<Rightarrow> error list \<Rightarrow> KeyManager \<Rightarrow> 'w
     \<Rightarrow> (error + error list) \<times> KeyManager \<times> 'w" where
  "RotateExpired_loop d now [] errs km w = (Inr errs, km, w)"
| "RotateExpired_loop d now ((alg, ckp) # rest) errs km w =
     (case is_expired ckp now of
        Inl p \<Rightarrow> (Inl p, km, w)
      | Inr False \<Rightarrow> RotateExpired_loop d now rest errs km w
      | Inr True \<Rightarrow>
          (case Rotate d alg km w of
             (Some err, km1, w1) \<Rightarrow> RotateExpired_loop d now rest (errs @ [ErrRotate alg err]) km1 w1
           | (None, km1, w1) \<Rightarrow> RotateExpired_loop d now rest errs km1 w1))"

definition RotateExpired :: "'w deps \<Rightarrow> KeyManager \<Rightarrow> 'w \<Rightarrow> error option \<times> KeyManager \<times> 'w" where
  "RotateExpired d km w =
     (let snapshot = active km in
      case time_Now d w of
        (now, w1) \<Rightarrow>
          (case RotateExpired_loop d now snapshot [] km w1 of
             (Inl p, km2, w2) \<Rightarrow> (Some p, km2, w2)
           | (Inr errs, km2, w2) \<Rightarrow>
               if length errs > 0 then (Some (ErrRotationErrors errs), km2, w2)
               else (None, km2, w2)))"

fun InitKeys :: "'w deps \<Rightarrow> Alg list \<Rightarrow> KeyManager \<Rightarrow> 'w \<Rightarrow> error option \<times> KeyManager \<times> 'w" where
  "InitKeys d [] km w = (None, km, w)"
| "InitKeys d (alg # algs) km w =
     (if map_of (active km) alg \<noteq> None then InitKeys d algs km w
      else
        (case Rotate d alg km w of
           (Some err, km1, w1) \<Rightarrow> (Some (ErrInitKey alg err), km1, w1)
         | (None, km1, w1) \<Rightarrow> InitKeys d algs km1 w1))"

definition NewKeyManager :: "'w deps \<Rightarrow> 'w \<Rightarrow> (error + KeyManager) \<times> 'w" where
  "NewKeyManager d w =
     (case ReloadCache d \<lparr>active = [], cache = []\<rparr> w of
        (Some err, km, w1) \<Rightarrow> (Inl err, w1)
      | (None, km, w1) \<Rightarrow> (Inr km, w1))"

section \<open>The mock store and the mock encryptor (mock_store.go, mock_encryptor.go)\<close>

text \<open>
  \<^verbatim>\<open>MockStore.data\<close> is a map from key id to a pointer to the stored record; the
  association list stands for it, in the order one iteration visits it.
\<close>

record MockStore =
  data :: "(string \<times> Key) list"

definition MockStore_Save :: "Key \<Rightarrow> MockStore \<Rightarrow> MockStore" where
  "MockStore_Save k s = s\<lparr>data := AList.update (KID k) k (data s)\<rparr>"

definition MockStore_List :: "MockStore \<Rightarrow> error + Key list" where
  "MockStore_List s = Inr (map snd (data s))"

definition MockStore_Rotate :: "Key \<Rightarrow> Key option \<Rightarrow> MockStore \<Rightarrow> MockStore" where
  "MockStore_Rotate newKey old s =
     (let data1 =
        (case old of
           None \<Rightarrow> data s
         | Some oldk \<Rightarrow>
             (case map_of (data s) (KID oldk) of
                Some stored \<Rightarrow> AList.update (KID oldk) (stored\<lparr>IsActive := False\<rparr>) (data s)
              | None \<Rightarrow> data s))
      in s\<lparr>data := AList.update (KID newKey) newKey data1\<rparr>)"

definition MockEncryptor_Encrypt :: "bytes \<Rightarrow> error + EncryptedKey" where
  "MockEncryptor_Encrypt b = Inr \<lparr>Nonce = [], Ciphertext = b\<rparr>"

definition MockEncryptor_Decrypt :: "bool \<Rightarrow> EncryptedKey \<Rightarrow> error + bytes" where
  "MockEncryptor_Decrypt ForceDecryptError e =
     (if ForceDecryptError then Inl (ErrExternal ''forced decrypt error'')
      else Inr (Ciphertext e))"

section \<open>The mock store next to arbitrary other collaborators\<close>

text \<open>
  A manager whose store is the \<open>MockStore\<close> and whose other collaborators are those of
  \<open>d\<close>, acting on a world of their own: the store changes only through its own methods.
\<close>

definition beside :: "('e \<Rightarrow> 'a \<times> 'e) \<Rightarrow> MockStore \<times> 'e \<Rightarrow> 'a \<times> (MockStore \<times> 'e)" where
  "beside f = (\<lambda>(s, e). case f e of (r, e') \<Rightarrow> (r, (s, e')))"

definition with_MockStore :: "'e deps \<Rightarrow> (MockStore \<times> 'e) deps" where
  "with_MockStore d =
     \<lparr>store_List = (\<lambda>(s, e). (MockStore_List s, (s, e))),
      store_Rotate = (\<lambda>newKey old (s, e). (None, (MockStore_Rotate newKey old s, e))),
      enc_Encrypt = (\<lambda>b. beside (enc_Encrypt d b)),
      enc_Decrypt = (\<lambda>k. beside (enc_Decrypt d k)),
      policy = beside (policy d),
      time_Now = beside (time_Now d),
      time_Format = time_Format d,
      rand_Read = (\<lambda>n. beside (rand_Read d n)),
      rsa_GenerateKey = (\<lambda>bits. beside (rsa_GenerateKey d bits)),
      ecdsa_GenerateKey = beside (ecdsa_GenerateKey d),
      ed25519_GenerateKey = beside (ed25519_GenerateKey d),
      x509_MarshalPKCS8PrivateKey = x509_MarshalPKCS8PrivateKey d,
      x509_ParsePKCS8PrivateKey = x509_ParsePKCS8PrivateKey d,
      signer_Sign = (\<lambda>p digest opts. beside (signer_Sign d p digest opts)),
      sha256 = sha256 d,
      rsa_VerifyPKCS1v15 = rsa_VerifyPKCS1v15 d,
      ecdsa_Verify = ecdsa_Verify d,
      ed25519_Verify = ed25519_Verify d\<rparr>"

section \<open>A test harness\<close>

text \<open>
  A concrete world in the manner of the package's tests: the \<open>MockStore\<close> behind the
  \<open>FailingStore\<close> switches of the rotation tests, the \<open>MockEncryptor\<close>, a policy that
  returns a fixed result, a counter for the clock and the random source, fixed keys, and
  a stand-in for PKCS#8 that encodes a key as one byte.  The world counts the calls of
  \<open>List\<close> and of the store's \<open>Rotate\<close> and records the ids given to the payload builder.
\<close>

record world =
  store :: MockStore
  FailList :: bool
  FailRotate :: bool
  ticks :: nat
  ListCount :: nat
  RotateCount :: nat
  built :: "string list"

definition test_rsa :: Signer where
  "test_rsa = RSAPrivateKey 3233 17 413"

definition test_ec :: Signer where
  "test_ec = ECDSAPrivateKey 5 7 11"

definition test_ed :: Signer where
  "test_ed = Ed25519PrivateKey (replicate 64 9)"

definition test_marshal :: "Signer \<Rightarrow> error + bytes" where
  "test_marshal p =
     (case p of
        RSAPrivateKey n e d \<Rightarrow> Inr [1]
      | ECDSAPrivateKey x y d \<Rightarrow> Inr [2]
      | Ed25519PrivateKey b \<Rightarrow> Inr [3])"

definition test_parse :: "bytes \<Rightarrow> error + ParsedKey" where
  "test_parse der =
     (if der = [1] then Inr (ParsedSigner test_rsa)
      else if der = [2] then Inr (ParsedSigner test_ec)
      else if der = [3] then Inr (ParsedSigner test_ed)
      else if der = [4] then Inr ParsedOther
      else Inl (ErrExternal ''x509: failed to parse private key''))"

definition test_der :: bytes where
  "test_der = [0x30, 0x09, 0x02, 0x02, 0x30, 0x39, 0x02, 0x03, 0x01, 0x09, 0x32]"

definition test_deps :: "(error + RotationConfig) \<Rightarrow> bool \<Rightarrow> world deps" where
  "test_deps pol ForceDecryptError =
     \<lparr>store_List = (\<lambda>w.
        if FailList w then (Inl (ErrExternal ''list failed''), w\<lparr>ListCount := ListCount w + 1\<rparr>)
        else (MockStore_List (store w), w\<lparr>ListCount := ListCount w + 1\<rparr>)),
      store_Rotate = (\<lambda>newKey old w.
        if FailRotate w then (Some (ErrExternal ''rotate failed''), w\<lparr>RotateCount := RotateCount w + 1\<rparr>)
        else (None, w\<lparr>store := MockStore_Rotate newKey old (store w),
                         RotateCount := RotateCount w + 1\<rparr>)),
      enc_Encrypt = (\<lambda>b w. (MockEncryptor_Encrypt b, w)),
      enc_Decrypt = (\<lambda>k w. (MockEncryptor_Decrypt ForceDecryptError k, w)),
      policy = (\<lambda>w. (pol, w)),
      time_Now = (\<lambda>w. (int (ticks w), w\<lparr>ticks := ticks w + 1\<rparr>)),
      time_Format = (\<lambda>t. ''T''),
      rand_Read = (\<lambda>n w. ((None, replicate n (of_nat (ticks w))), w\<lparr>ticks := ticks w + 1\<rparr>)),
      rsa_GenerateKey = (\<lambda>bits w. (Inr test_rsa, w)),
      ecdsa_GenerateKey = (\<lambda>w. (Inr test_ec, w)),
      ed25519_GenerateKey = (\<lambda>w. (Inr test_ed, w)),
      x509_MarshalPKCS8PrivateKey = test_marshal,
      x509_ParsePKCS8PrivateKey = test_parse,
      signer_Sign = (\<lambda>p digest opts w. (Inr test_der, w)),
      sha256 = (\<lambda>b. b),
      rsa_VerifyPKCS1v15 = (\<lambda>pk digest sig. None),
      ecdsa_Verify = (\<lambda>pk digest r s. True),
      ed25519_Verify = (\<lambda>pk msg sig. True)\<rparr>"

definition test_world :: "(string \<times> Key) list \<Rightarrow> world" where
  "test_world kvs =
     \<lparr>store = \<lparr>data = kvs\<rparr>, FailList = False, FailRotate = False, ticks = 0,
      ListCount = 0, RotateCount = 0, built = []\<rparr>"

definition test_key :: "string \<Rightarrow> Alg \<Rightarrow> bool \<Rightarrow> bytes \<Rightarrow> Key" where
  "test_key kid alg act der =
     \<lparr>KID = kid, Alg = alg, IsActive = act, CreatedAt = 0, ExpiresAt = None,
      EncryptedKey = \<lparr>Nonce = [], Ciphertext = der\<rparr>\<rparr>"

definition test_build :: "string \<Rightarrow> world \<Rightarrow> (error + bytes) \<times> world" where
  "test_build kid w = (Inr (map of_char kid), w\<lparr>built := built w @ [kid]\<rparr>)"

definition empty_manager :: KeyManager where
  "empty_manager = \<lparr>active = [], cache = []\<rparr>"

definition test_ck :: "Key \<Rightarrow> Signer \<Rightarrow> CachedKey" where
  "test_ck k p = \<lparr>key = Some k, priv = Some p, pub = Public p\<rparr>"

definition test_manager :: KeyManager where
  "test_manager =
     \<lparr>active = [(AlgES256, Some (test_ck (test_key ''ec1'' AlgES256 True [2]) test_ec))],
      cache = [(''ec1'', Some (test_ck (test_key ''ec1'' AlgES256 True [2]) test_ec))]\<rparr>"

definition test_policy :: "error + RotationConfig" where
  "test_policy = Inr \<lparr>TTL = 3600\<rparr>"

section \<open>Specification side: rotating every expired algorithm\<close>

text \<open>
  The algorithms of a snapshot whose entry is expired at \<open>now\<close>, and the rotation of each
  algorithm of a list in turn, whether or not earlier rotations failed, collecting one
  error per failed rotation.
\<close>

definition expired_algs :: "int \<Rightarrow> (Alg \<times> CachedKey option) list \<Rightarrow> Alg list" where
  "expired_algs now snapshot =
     map fst (filter (\<lambda>p. is_expired (snd p) now = Inr True) snapshot)"

fun rotate_each :: "'w deps \<Rightarrow> Alg list \<Rightarrow> KeyManager \<Rightarrow> 'w \<Rightarrow> error list \<times> KeyManager \<times> 'w" where
  "rotate_each d [] km w = ([], km, w)"
| "rotate_each d (alg # algs) km w =
     (case Rotate d alg km w of
        (r, km1, w1) \<Rightarrow>
          (case rotate_each d algs km1 w1 of
             (es, km2, w2) \<Rightarrow>
               ((case r of None \<Rightarrow> [] | Some err \<Rightarrow> [ErrRotate alg err]) @ es, km2, w2)))"

text \<open>The record, the manager and the world that one rotation of RS256 on the empty test world leaves.\<close>

definition test_newKey :: "int \<Rightarrow> Key" where
  "test_newKey ttl =
     \<lparr>KID = ''RS256_AQEBAQEBAQEBAQEB'', Alg = AlgRS256, IsActive = True, CreatedAt = 0,
      ExpiresAt = Some ttl, EncryptedKey = \<lparr>Nonce = [], Ciphertext = [1]\<rparr>\<rparr>"

definition test_rotated :: "int \<Rightarrow> KeyManager" where
  "test_rotated ttl =
     \<lparr>active = [(AlgRS256, Some (test_ck (test_newKey ttl) test_rsa))],
      cache = [(''RS256_AQEBAQEBAQEBAQEB'', Some (test_ck (test_newKey ttl) test_rsa))]\<rparr>"

definition test_rotated_world :: "int \<Rightarrow> world" where
  "test_rotated_world ttl =
     \<lparr>store = \<lparr>data = [(''RS256_AQEBAQEBAQEBAQEB'', test_newKey ttl)]\<rparr>, FailList = False,
      FailRotate = False, ticks = 2, ListCount = 2, RotateCount = 1, built = []\<rparr>"

text \<open>
  Specification side: \<open>InitKeys\<close> as one step per algorithm of the list on an outcome
  (the error so far, the manager, the world).  Once an error is there, a step does nothing,
  whatever the algorithm; before that, an algorithm with an active key is left alone and
  any other is rotated, a failure becoming the error of the outcome.
\<close>

definition init_step ::
  "'w deps \<Rightarrow> error option \<times> KeyManager \<times> 'w \<Rightarrow> Alg \<Rightarrow> error option \<times> KeyManager \<times> 'w" where
  "init_step d st alg =
     (case st of
        (Some err, km, w) \<Rightarrow> (Some err, km, w)
      | (None, km, w) \<Rightarrow>
          if map_of (active km) alg \<noteq> None then (None, km, w)
          else
            (case Rotate d alg km w of
               (Some err, km1, w1) \<Rightarrow> (Some (ErrInitKey alg err), km1, w1)
             | (None, km1, w1) \<Rightarrow> (None, km1, w1)))"

text \<open>
  Fixtures for the bootstrap and expiry examples: a world whose store holds the ES256
  record of \<open>test_manager\<close>, and what one successful rotation of RS256 makes of it.
\<close>

definition test_world_ec :: world where
  "test_world_ec = test_world [(''ec1'', test_key ''ec1'' AlgES256 True [2])]"

definition test_manager_init :: KeyManager where
  "test_manager_init =
     \<lparr>active = [(AlgES256, Some (test_ck (test_key ''ec1'' AlgES256 True [2]) test_ec)),
                (AlgRS256, Some (test_ck (test_newKey 3600) test_rsa))],
      cache = [(''ec1'', Some (test_ck (test_key ''ec1'' AlgES256 True [2]) test_ec)),
               (''RS256_AQEBAQEBAQEBAQEB'', Some (test_ck (test_newKey 3600) test_rsa))]\<rparr>"

definition test_world_init :: "nat \<Rightarrow> world" where
  "test_world_init n =
     \<lparr>store = \<lparr>data = [(''ec1'', test_key ''ec1'' AlgES256 True [2]),
                        (''RS256_AQEBAQEBAQEBAQEB'', test_newKey 3600)]\<rparr>,
      FailList = False, FailRotate = False, ticks = 2, ListCount = n, RotateCount = 1, built = []\<rparr>"

text \<open>
  A manager whose active map holds an expired entry for an unknown algorithm, an expired
  RS256 entry and an ES256 entry that has not expired; the record a rotation of RS256
  creates when the clock stands at 1, and the manager and the world it leaves on an empty
  store.
\<close>

definition test_manager_expired :: KeyManager where
  "test_manager_expired =
     \<lparr>active =
        [(''BAD1'', Some (test_ck ((test_key ''b1'' ''BAD1'' True [1])\<lparr>ExpiresAt := Some (- 5)\<rparr>) test_rsa)),
         (AlgRS256, Some (test_ck ((test_key ''r0'' AlgRS256 True [1])\<lparr>ExpiresAt := Some (- 5)\<rparr>) test_rsa)),
         (AlgES256, Some (test_ck ((test_key ''ec1'' AlgES256 True [2])\<lparr>ExpiresAt := Some 100\<rparr>) test_ec))],
      cache = []\<rparr>"

definition test_newKey2 :: Key where
  "test_newKey2 =
     \<lparr>KID = ''RS256_AgICAgICAgICAgIC'', Alg = AlgRS256, IsActive = True, CreatedAt = 1,
      ExpiresAt = Some 3601, EncryptedKey = \<lparr>Nonce = [], Ciphertext = [1]\<rparr>\<rparr>"

definition test_manager_rotated2 :: KeyManager where
  "test_manager_rotated2 =
     \<lparr>active = [(AlgRS256, Some (test_ck test_newKey2 test_rsa))],
      cache = [(''RS256_AgICAgICAgICAgIC'', Some (test_ck test_newKey2 test_rsa))]\<rparr>"

definition test_world_rotated2 :: world where
  "test_world_rotated2 =
     \<lparr>store = \<lparr>data = [(''RS256_AgICAgICAgICAgIC'', test_newKey2)]\<rparr>,
      FailList = False, FailRotate = False, ticks = 3, ListCount = 3, RotateCount = 1, built = []\<rparr>"

text \<open>
  A manager with an active key for each of the three algorithms, and collaborators whose
  signer and digest show what they were given: the digest of a byte string is its length,
  an RSA signature is \<open>0x52\<close> before the bytes signed, an Ed25519 signature \<open>0xED\<close> before
  them, and the ECDSA signature is the DER form of \<open>(12345, 67890)\<close>.
\<close>

definition test_manager_all :: KeyManager where
  "test_manager_all =
     \<lparr>active = [(AlgRS256, Some (test_ck (test_key ''rsa1'' AlgRS256 True [1]) test_rsa)),
                (AlgES256, Some (test_ck (test_key ''ec1'' AlgES256 True [2]) test_ec)),
                (AlgEdDSA, Some (test_ck (test_key ''ed1'' AlgEdDSA True [3]) test_ed))],
      cache = [(''rsa1'', Some (test_ck (test_key ''rsa1'' AlgRS256 True [1]) test_rsa)),
               (''ec1'', Some (test_ck (test_key ''ec1'' AlgES256 True [2]) test_ec)),
               (''ed1'', Some (test_ck (test_key ''ed1'' AlgEdDSA True [3]) test_ed))]\<rparr>"

definition test_deps_sign :: "world deps" where
  "test_deps_sign =
     (test_deps test_policy False)
       \<lparr>signer_Sign := (\<lambda>p digest opts w.
          (case p of
             RSAPrivateKey n e x \<Rightarrow> Inr (0x52 # digest)
           | ECDSAPrivateKey x y z \<Rightarrow> Inr test_der
           | Ed25519PrivateKey b \<Rightarrow> Inr (0xED # digest), w)),
        sha256 := (\<lambda>b. [of_nat (length b)])\<rparr>"

section \<open>Specification side: the store as a set of records\<close>

text \<open>
  A record is active for an algorithm; a \<open>MockStore\<close> is well formed when its association
  list is a map (no key twice) and every record is stored under its own id, as \<open>Save\<close>
  and \<open>Rotate\<close> store it.
\<close>

definition active_for :: "Alg \<Rightarrow> Key \<Rightarrow> bool" where
  "active_for alg k = (Alg k = alg \<and> IsActive k)"

definition wf_store :: "MockStore \<Rightarrow> bool" where
  "wf_store s = (distinct (map fst (data s)) \<and> list_all (\<lambda>p. KID (snd p) = fst p) (data s))"

definition test_old :: "string \<Rightarrow> bool \<Rightarrow> Key" where
  "test_old kid act = test_key kid AlgRS256 act [1]"

text \<open>
  Specification side: a byte string left-padded with zero bytes to \<open>n\<close> bytes.
\<close>

definition leftpad :: "nat \<Rightarrow> bytes \<Rightarrow> bytes" where
  "leftpad n bs = replicate (n - length bs) 0 @ bs"

section \<open>Properties of the signature codec\<close>

subsection \<open>Big-endian bytes\<close>









lemma length_leftpad: "length bs \<le> k \<Longrightarrow> length (leftpad k bs) = k"
  by (simp add: leftpad_def)


subsection \<open>The two copies into the 64-byte buffer\<close>

lemma copy_raw:
  assumes "length rb \<le> 32" "length sb \<le> 32"
  shows "copy_at (copy_at (replicate 64 0) (32 - length rb) 32 rb)
           (64 - length sb) 64 sb = leftpad 32 rb @ leftpad 32 sb"
proof -
  have r1: "copy_at (replicate 64 0) (32 - length rb) 32 rb
      = leftpad 32 rb @ replicate 32 0"
    using assms(1) by (simp add: copy_at_def leftpad_def min_def Let_def)
  have l: "length (leftpad 32 rb) = 32" using assms(1) by (rule length_leftpad)
  have "copy_at (leftpad 32 rb @ replicate 32 0) (64 - length sb) 64 sb
      = leftpad 32 rb @ replicate (32 - length sb) 0 @ sb"
    using assms(2) l by (simp add: copy_at_def min_def Let_def)
  then show ?thesis by (simp add: r1 leftpad_def)
qed

lemma DERToRawECDSA_fits:
  assumes "asn1_Unmarshal der = Inr (sig, rest)"
    and "length (Bytes (R sig)) \<le> 32" and "length (Bytes (S sig)) \<le> 32"
  shows "DERToRawECDSA alg der = Inr (leftpad 32 (Bytes (R sig)) @ leftpad 32 (Bytes (S sig)))"
  using assms by (simp add: DERToRawECDSA_def Let_def copy_raw)

lemma DERToRawECDSA_too_large:
  assumes "asn1_Unmarshal der = Inr (sig, rest)"
    and "length (Bytes (R sig)) > 32 \<or> length (Bytes (S sig)) > 32"
  shows "DERToRawECDSA alg der = Inl (ErrTooLarge alg)"
  using assms by (auto simp add: DERToRawECDSA_def Let_def)


lemma DERToRawECDSA_length:
  assumes "DERToRawECDSA alg der = Inr raw"
  shows "length raw = 64"
proof -
  from assms obtain sig rest where u: "asn1_Unmarshal der = Inr (sig, rest)"
    by (auto simp add: DERToRawECDSA_def split: sum.splits)
  show ?thesis
  proof (cases "length (Bytes (R sig)) \<le> 32 \<and> length (Bytes (S sig)) \<le> 32")
    case True
    with u assms have "raw = leftpad 32 (Bytes (R sig)) @ leftpad 32 (Bytes (S sig))"
      by (simp add: DERToRawECDSA_fits)
    with True show ?thesis by (simp add: length_leftpad)
  next
    case False
    then have "length (Bytes (R sig)) > 32 \<or> length (Bytes (S sig)) > 32" by auto
    with u have "DERToRawECDSA alg der = Inl (ErrTooLarge alg)"
      by (rule DERToRawECDSA_too_large)
    with assms show ?thesis by simp
  qed
qed

lemmas asn1_eval = asn1_Unmarshal_def parseField_ecdsaSignature_def parseField_bigInt_def
  parseTagAndLength_def parseLength_def parseBigInt_def checkInteger_def SetBytes_def
  parseBase128Int_def parseBase128Int_loop.simps

subsection \<open>The contract of the codec\<close>

lemma unmarshal_12345:
  "asn1_Unmarshal [0x30, 0x09, 0x02, 0x02, 0x30, 0x39, 0x02, 0x03, 0x01, 0x09, 0x32]
     = Inr (\<lparr>R = 12345, S = 67890\<rparr>, [])"
  by (simp add: asn1_eval)

lemma Bytes_12345: "Bytes 12345 = [0x30, 0x39]"
  by (simp add: Bytes_def be_bytes.simps)

lemma Bytes_67890: "Bytes 67890 = [0x01, 0x09, 0x32]"
  by (simp add: Bytes_def be_bytes.simps)











text \<open>
  C9.  The algorithm argument of \<open>DERToRawECDSA\<close> has no influence on the result: for any
  two algorithm identifiers and any input, both calls return the same 64 bytes, or both
  fail with an error of the same kind.  (The width is the constant 32; the argument only
  appears in the text of the "too large" error.)
\<close>

theorem DERToRawECDSA_alg_independent:
  "map_sum kind_of id (DERToRawECDSA alg1 der) = map_sum kind_of id (DERToRawECDSA alg2 der)"
  by (simp add: DERToRawECDSA_def Let_def split: sum.splits)

section \<open>Properties of the key manager\<close>

subsection \<open>Base64 at concrete inputs\<close>

lemma b64_test: "b64 (replicate 12 1) = ''AQEBAQEBAQEBAQEB''"
  by code_simp

lemma b64_hello: "b64 [0x68, 0x65, 0x6c, 0x6c, 0x6f] = ''aGVsbG8''"
  by code_simp

lemma b64_ff: "b64 [0xfb, 0xff] = ''-_8''"
  by code_simp

lemmas harness_eval = test_deps_def test_world_def test_key_def test_ck_def test_manager_def
  test_policy_def test_marshal_def test_parse_def test_rsa_def test_ec_def test_ed_def
  MockStore_List_def MockStore_Rotate_def MockStore_Save_def MockEncryptor_Encrypt_def
  MockEncryptor_Decrypt_def parsePrivateKey_def marshalPKCS8_def lookup_def
  AlgRS256_def AlgES256_def AlgEdDSA_def Let_def

subsection \<open>Reloading the cache\<close>

lemma ReloadCache_loop_append:
  "ReloadCache_loop d (pre @ rest) nc na w =
     (case ReloadCache_loop d pre nc na w of
        (Inl err, w') \<Rightarrow> (Inl err, w')
      | (Inr (nc', na'), w') \<Rightarrow> ReloadCache_loop d rest nc' na' w')"
proof (induction pre arbitrary: nc na w)
  case Nil
  then show ?case by simp
next
  case (Cons k pre)
  show ?case
    by (simp add: Cons.IH Let_def split: prod.splits sum.splits)
qed

lemma ReloadCache_error_unchanged:
  assumes "ReloadCache d km w = (Some err, km', w')"
  shows "km' = km"
  using assms by (auto simp add: ReloadCache_def split: prod.splits sum.splits)

lemma ReloadCache_list_fails:
  assumes "store_List d w = (Inl err, w1)"
  shows "ReloadCache d km w = (Some err, km, w1)"
  using assms by (simp add: ReloadCache_def)

lemma ReloadCache_decrypt_fails:
  assumes "store_List d w = (Inr (pre @ k # post), w1)"
    and "ReloadCache_loop d pre [] [] w1 = (Inr (nc, na), w2)"
    and "enc_Decrypt d (EncryptedKey k) w2 = (Inl err, w3)"
  shows "ReloadCache d km w = (Some (ErrDecryptKey (KID k) err), km, w3)"
  using assms by (simp add: ReloadCache_def ReloadCache_loop_append)

lemma ReloadCache_parse_fails:
  assumes "store_List d w = (Inr (pre @ k # post), w1)"
    and "ReloadCache_loop d pre [] [] w1 = (Inr (nc, na), w2)"
    and "enc_Decrypt d (EncryptedKey k) w2 = (Inr privBytes, w3)"
    and "parsePrivateKey d privBytes = Inl err"
  shows "ReloadCache d km w = (Some (ErrParseKey (KID k) err), km, w3)"
  using assms by (simp add: ReloadCache_def ReloadCache_loop_append)

text \<open>
  C1.  \<open>ReloadCache\<close> is atomic on failure.  When the listing fails the call returns
  that error; when, after the records before it were decrypted and parsed, one record
  fails to decrypt or to parse, the call returns the error naming that record.  Whenever
  the call returns an error, the manager is the one it was before: both maps, and so
  every lookup by key id or by algorithm, are unchanged.
\<close>

theorem ReloadCache_atomic_on_failure:
  "(store_List d w = (Inl err, w1) \<longrightarrow> ReloadCache d km w = (Some err, km, w1))
   \<and> (store_List d w = (Inr (pre @ k # post), w1)
        \<and> ReloadCache_loop d pre [] [] w1 = (Inr (nc, na), w2)
        \<and> enc_Decrypt d (EncryptedKey k) w2 = (Inl err, w3)
      \<longrightarrow> ReloadCache d km w = (Some (ErrDecryptKey (KID k) err), km, w3))
   \<and> (store_List d w = (Inr (pre @ k # post), w1)
        \<and> ReloadCache_loop d pre [] [] w1 = (Inr (nc, na), w2)
        \<and> enc_Decrypt d (EncryptedKey k) w2 = (Inr privBytes, w3)
        \<and> parsePrivateKey d privBytes = Inl err
      \<longrightarrow> ReloadCache d km w = (Some (ErrParseKey (KID k) err), km, w3))
   \<and> (ReloadCache d km w = (Some err, km', w') \<longrightarrow>
        km' = km \<and> active km' = active km \<and> cache km' = cache km
        \<and> (\<forall>kid. lookup (cache km') kid = lookup (cache km) kid)
        \<and> (\<forall>alg. lookup (active km') alg = lookup (active km) alg))"
proof (intro conjI impI)
  assume "store_List d w = (Inl err, w1)"
  then show "ReloadCache d km w = (Some err, km, w1)" by (rule ReloadCache_list_fails)
next
  assume "store_List d w = (Inr (pre @ k # post), w1)
        \<and> ReloadCache_loop d pre [] [] w1 = (Inr (nc, na), w2)
        \<and> enc_Decrypt d (EncryptedKey k) w2 = (Inl err, w3)"
  then have "store_List d w = (Inr (pre @ k # post), w1)"
    "ReloadCache_loop d pre [] [] w1 = (Inr (nc, na), w2)"
    "enc_Decrypt d (EncryptedKey k) w2 = (Inl err, w3)"
    by simp_all
  then show "ReloadCache d km w = (Some (ErrDecryptKey (KID k) err), km, w3)"
    by (rule ReloadCache_decrypt_fails)
next
  assume "store_List d w = (Inr (pre @ k # post), w1)
        \<and> ReloadCache_loop d pre [] [] w1 = (Inr (nc, na), w2)
        \<and> enc_Decrypt d (EncryptedKey k) w2 = (Inr privBytes, w3)
        \<and> parsePrivateKey d privBytes = Inl err"
  then have "store_List d w = (Inr (pre @ k # post), w1)"
    "ReloadCache_loop d pre [] [] w1 = (Inr (nc, na), w2)"
    "enc_Decrypt d (EncryptedKey k) w2 = (Inr privBytes, w3)"
    "parsePrivateKey d privBytes = Inl err"
    by simp_all
  then show "ReloadCache d km w = (Some (ErrParseKey (KID k) err), km, w3)"
    by (rule ReloadCache_parse_fails)
next
  assume a: "ReloadCache d km w = (Some err, km', w')"
  then have "km' = km" by (rule ReloadCache_error_unchanged)
  then show "km' = km" "active km' = active km" "cache km' = cache km"
    "\<forall>kid. lookup (cache km') kid = lookup (cache km) kid"
    "\<forall>alg. lookup (active km') alg = lookup (active km) alg"
    by simp_all
qed

text \<open>
  A failing listing, a failing decryption and a failing parse, with a manager that
  already holds an active ES256 key: the key stays in the maps.
\<close>

theorem ReloadCache_atomic_on_failure_witness:
  "ReloadCache (test_deps test_policy False) test_manager
      ((test_world [(''ec1'', test_key ''ec1'' AlgES256 True [2])])\<lparr>FailList := True\<rparr>)
     = (Some (ErrExternal ''list failed''), test_manager,
        (test_world [(''ec1'', test_key ''ec1'' AlgES256 True [2])])\<lparr>FailList := True, ListCount := 1\<rparr>)
   \<and> ReloadCache (test_deps test_policy True) test_manager
      (test_world [(''ec1'', test_key ''ec1'' AlgES256 True [2]), (''rsa1'', test_key ''rsa1'' AlgRS256 True [1])])
     = (Some (ErrDecryptKey ''ec1'' (ErrExternal ''forced decrypt error'')), test_manager,
        (test_world [(''ec1'', test_key ''ec1'' AlgES256 True [2]), (''rsa1'', test_key ''rsa1'' AlgRS256 True [1])])\<lparr>ListCount := 1\<rparr>)
   \<and> ReloadCache (test_deps test_policy False) test_manager
      (test_world [(''ec1'', test_key ''ec1'' AlgES256 True [2]), (''broken'', test_key ''broken'' AlgRS256 True [7])])
     = (Some (ErrParseKey ''broken'' (ErrParsePKCS8 (ErrExternal ''x509: failed to parse private key''))), test_manager,
        (test_world [(''ec1'', test_key ''ec1'' AlgES256 True [2]), (''broken'', test_key ''broken'' AlgRS256 True [7])])\<lparr>ListCount := 1\<rparr>)
   \<and> lookup (active test_manager) AlgES256 = Some (test_ck (test_key ''ec1'' AlgES256 True [2]) test_ec)"
proof (intro conjI)
  let ?kec = "test_key ''ec1'' AlgES256 True [2]"
  let ?krsa = "test_key ''rsa1'' AlgRS256 True [1]"
  let ?kbad = "test_key ''broken'' AlgRS256 True [7]"
  show "ReloadCache (test_deps test_policy False) test_manager
      ((test_world [(''ec1'', ?kec)])\<lparr>FailList := True\<rparr>)
     = (Some (ErrExternal ''list failed''), test_manager,
        (test_world [(''ec1'', ?kec)])\<lparr>FailList := True, ListCount := 1\<rparr>)"
    using ReloadCache_atomic_on_failure [where d = "test_deps test_policy False"
        and w = "(test_world [(''ec1'', ?kec)])\<lparr>FailList := True\<rparr>"
        and err = "ErrExternal ''list failed''" and km = test_manager
        and ?w1.0 = "(test_world [(''ec1'', ?kec)])\<lparr>FailList := True, ListCount := 1\<rparr>",
        THEN conjunct1]
    by (simp add: test_deps_def test_world_def)
  show "ReloadCache (test_deps test_policy True) test_manager
      (test_world [(''ec1'', ?kec), (''rsa1'', ?krsa)])
     = (Some (ErrDecryptKey ''ec1'' (ErrExternal ''forced decrypt error'')), test_manager,
        (test_world [(''ec1'', ?kec), (''rsa1'', ?krsa)])\<lparr>ListCount := 1\<rparr>)"
    using ReloadCache_atomic_on_failure [where d = "test_deps test_policy True"
        and w = "test_world [(''ec1'', ?kec), (''rsa1'', ?krsa)]"
        and pre = "[]" and k = "?kec" and post = "[?krsa]"
        and err = "ErrExternal ''forced decrypt error''" and km = test_manager
        and ?w1.0 = "(test_world [(''ec1'', ?kec), (''rsa1'', ?krsa)])\<lparr>ListCount := 1\<rparr>"
        and ?w2.0 = "(test_world [(''ec1'', ?kec), (''rsa1'', ?krsa)])\<lparr>ListCount := 1\<rparr>"
        and ?w3.0 = "(test_world [(''ec1'', ?kec), (''rsa1'', ?krsa)])\<lparr>ListCount := 1\<rparr>"
        and nc = "[]" and na = "[]", THEN conjunct2, THEN conjunct1]
    by (simp add: harness_eval)
  show "ReloadCache (test_deps test_policy False) test_manager
      (test_world [(''ec1'', ?kec), (''broken'', ?kbad)])
     = (Some (ErrParseKey ''broken'' (ErrParsePKCS8 (ErrExternal ''x509: failed to parse private key''))), test_manager,
        (test_world [(''ec1'', ?kec), (''broken'', ?kbad)])\<lparr>ListCount := 1\<rparr>)"
    using ReloadCache_atomic_on_failure [where d = "test_deps test_policy False"
        and w = "test_world [(''ec1'', ?kec), (''broken'', ?kbad)]"
        and pre = "[?kec]" and k = "?kbad" and post = "[]"
        and err = "ErrParsePKCS8 (ErrExternal ''x509: failed to parse private key'')" and km = test_manager
        and privBytes = "[7]"
        and ?w1.0 = "(test_world [(''ec1'', ?kec), (''broken'', ?kbad)])\<lparr>ListCount := 1\<rparr>"
        and ?w2.0 = "(test_world [(''ec1'', ?kec), (''broken'', ?kbad)])\<lparr>ListCount := 1\<rparr>"
        and ?w3.0 = "(test_world [(''ec1'', ?kec), (''broken'', ?kbad)])\<lparr>ListCount := 1\<rparr>"
        and nc = "[(''ec1'', Some (test_ck ?kec test_ec))]"
        and na = "[(AlgES256, Some (test_ck ?kec test_ec))]",
        THEN conjunct2, THEN conjunct2, THEN conjunct1]
    by (simp add: harness_eval)
  show "lookup (active test_manager) AlgES256 = Some (test_ck ?kec test_ec)"
    by (simp add: harness_eval)
qed

subsection \<open>Lookups\<close>

lemma activeKey_miss:
  assumes "lookup (active km) alg = None" and "ReloadCache d km w = (err, km', w')"
  shows "activeKey d alg km w = (lookup (active km') alg, km', w')"
  using assms by (simp add: activeKey_def)

lemma keyByKID_miss:
  assumes "lookup (cache km) kid = None" and "ReloadCache d km w = (err, km', w')"
  shows "keyByKID d kid km w = (lookup (cache km') kid, km', w')"
  using assms by (simp add: keyByKID_def)

lemma activeKey_hit:
  assumes "lookup (active km) alg = Some ck"
  shows "activeKey d alg km w = (Some ck, km, w)"
  using assms by (simp add: activeKey_def)

text \<open>
  C6.  A lookup by algorithm or by key id that misses the cache runs \<open>ReloadCache\<close>
  once and reads the map again: the manager and the world it returns are those one reload
  leaves, and the result is what the map then holds, whatever the reload returned, an
  error included.  When the second read misses too, \<open>Sign\<close> returns "no active key" and
  \<open>Verify\<close> returns "key not found", not the error of the reload.
\<close>

theorem cache_miss_reload_best_effort:
  "(lookup (active km) alg = None \<and> ReloadCache d km w = (err, km', w')
      \<longrightarrow> activeKey d alg km w = (lookup (active km') alg, km', w'))
   \<and> (lookup (cache km) kid = None \<and> ReloadCache d km w = (err, km', w')
      \<longrightarrow> keyByKID d kid km w = (lookup (cache km') kid, km', w'))
   \<and> (lookup (active km) alg = None \<and> ReloadCache d km w = (err, km', w')
        \<and> lookup (active km') alg = None
      \<longrightarrow> Sign d alg build km w = (Inl (ErrNoActiveKey alg), km', w'))
   \<and> (lookup (cache km) kid = None \<and> ReloadCache d km w = (err, km', w')
        \<and> lookup (cache km') kid = None
      \<longrightarrow> Verify d kid payload sig km w = (Some (ErrKeyNotFound kid), km', w'))"
proof (intro conjI impI)
  assume "lookup (active km) alg = None \<and> ReloadCache d km w = (err, km', w')"
  then show "activeKey d alg km w = (lookup (active km') alg, km', w')"
    by (simp add: activeKey_miss)
next
  assume "lookup (cache km) kid = None \<and> ReloadCache d km w = (err, km', w')"
  then show "keyByKID d kid km w = (lookup (cache km') kid, km', w')"
    by (simp add: keyByKID_miss)
next
  assume a: "lookup (active km) alg = None \<and> ReloadCache d km w = (err, km', w')
        \<and> lookup (active km') alg = None"
  then have "activeKey d alg km w = (None, km', w')"
    by (simp add: activeKey_miss)
  then show "Sign d alg build km w = (Inl (ErrNoActiveKey alg), km', w')"
    by (simp add: Sign_def)
next
  assume a: "lookup (cache km) kid = None \<and> ReloadCache d km w = (err, km', w')
        \<and> lookup (cache km') kid = None"
  then have "keyByKID d kid km w = (None, km', w')"
    by (simp add: keyByKID_miss)
  then show "Verify d kid payload sig km w = (Some (ErrKeyNotFound kid), km', w')"
    by (simp add: Verify_def)
qed

text \<open>
  With a store whose listing fails, \<open>Sign\<close> and \<open>Verify\<close> report not-found after one call
  of \<open>List\<close>; with a working store a miss is served by the reload.
\<close>

theorem cache_miss_reload_best_effort_witness:
  "Sign (test_deps test_policy False) AlgRS256 test_build test_manager
      ((test_world [])\<lparr>FailList := True\<rparr>)
     = (Inl (ErrNoActiveKey AlgRS256), test_manager, (test_world [])\<lparr>FailList := True, ListCount := 1\<rparr>)
   \<and> Verify (test_deps test_policy False) ''nokey'' [1] [2] test_manager
      ((test_world [])\<lparr>FailList := True\<rparr>)
     = (Some (ErrKeyNotFound ''nokey''), test_manager, (test_world [])\<lparr>FailList := True, ListCount := 1\<rparr>)
   \<and> activeKey (test_deps test_policy False) AlgRS256 empty_manager
      (test_world [(''rsa1'', test_key ''rsa1'' AlgRS256 True [1])])
     = (Some (test_ck (test_key ''rsa1'' AlgRS256 True [1]) test_rsa),
        \<lparr>active = [(AlgRS256, Some (test_ck (test_key ''rsa1'' AlgRS256 True [1]) test_rsa))],
         cache = [(''rsa1'', Some (test_ck (test_key ''rsa1'' AlgRS256 True [1]) test_rsa))]\<rparr>,
        (test_world [(''rsa1'', test_key ''rsa1'' AlgRS256 True [1])])\<lparr>ListCount := 1\<rparr>)
   \<and> keyByKID (test_deps test_policy False) ''rsa1'' empty_manager
      (test_world [(''rsa1'', test_key ''rsa1'' AlgRS256 True [1])])
     = (Some (test_ck (test_key ''rsa1'' AlgRS256 True [1]) test_rsa),
        \<lparr>active = [(AlgRS256, Some (test_ck (test_key ''rsa1'' AlgRS256 True [1]) test_rsa))],
         cache = [(''rsa1'', Some (test_ck (test_key ''rsa1'' AlgRS256 True [1]) test_rsa))]\<rparr>,
        (test_world [(''rsa1'', test_key ''rsa1'' AlgRS256 True [1])])\<lparr>ListCount := 1\<rparr>)"
proof (intro conjI)
  let ?d = "test_deps test_policy False"
  let ?wf = "(test_world [])\<lparr>FailList := True\<rparr>"
  let ?wf' = "(test_world [])\<lparr>FailList := True, ListCount := 1\<rparr>"
  let ?k = "test_key ''rsa1'' AlgRS256 True [1]"
  let ?w = "test_world [(''rsa1'', ?k)]"
  let ?w' = "(test_world [(''rsa1'', ?k)])\<lparr>ListCount := 1\<rparr>"
  let ?km' = "\<lparr>active = [(AlgRS256, Some (test_ck ?k test_rsa))],
         cache = [(''rsa1'', Some (test_ck ?k test_rsa))]\<rparr>"
  have r1: "ReloadCache ?d test_manager ?wf = (Some (ErrExternal ''list failed''), test_manager, ?wf')"
    by (simp add: ReloadCache_def test_deps_def test_world_def)
  have r2: "ReloadCache ?d empty_manager ?w = (None, ?km', ?w')"
    by (simp add: ReloadCache_def empty_manager_def harness_eval)
  show "Sign ?d AlgRS256 test_build test_manager ?wf = (Inl (ErrNoActiveKey AlgRS256), test_manager, ?wf')"
    using cache_miss_reload_best_effort [where d = ?d and alg = AlgRS256 and km = test_manager
        and w = ?wf and err = "Some (ErrExternal ''list failed'')" and km' = test_manager and w' = ?wf'
        and build = test_build, THEN conjunct2, THEN conjunct2, THEN conjunct1] r1
    by (simp add: harness_eval)
  show "Verify ?d ''nokey'' [1] [2] test_manager ?wf = (Some (ErrKeyNotFound ''nokey''), test_manager, ?wf')"
    using cache_miss_reload_best_effort [where d = ?d and kid = "''nokey''" and km = test_manager
        and w = ?wf and err = "Some (ErrExternal ''list failed'')" and km' = test_manager and w' = ?wf'
        and payload = "[1]" and sig = "[2]", THEN conjunct2, THEN conjunct2, THEN conjunct2] r1
    by (simp add: harness_eval)
  show "activeKey ?d AlgRS256 empty_manager ?w = (Some (test_ck ?k test_rsa), ?km', ?w')"
    using cache_miss_reload_best_effort [where d = ?d and alg = AlgRS256 and km = empty_manager
        and w = ?w and err = None and km' = ?km' and w' = ?w', THEN conjunct1] r2
    by (simp add: empty_manager_def lookup_def)
  show "keyByKID ?d ''rsa1'' empty_manager ?w = (Some (test_ck ?k test_rsa), ?km', ?w')"
    using cache_miss_reload_best_effort [where d = ?d and kid = "''rsa1''" and km = empty_manager
        and w = ?w and err = None and km' = ?km' and w' = ?w', THEN conjunct2, THEN conjunct1] r2
    by (simp add: empty_manager_def lookup_def)
qed

subsection \<open>Signing\<close>

lemma Sign_resolved:
  assumes "activeKey d alg km w = (Some ck, km1, w1)" and "key ck = Some k"
  shows "Sign d alg build km w =
     (case build (KID k) w1 of
        (Inl err, w2) \<Rightarrow> (Inl err, km1, w2)
      | (Inr signingInput, w2) \<Rightarrow>
          (case signingOptions alg of
             Inl err \<Rightarrow> (Inl err, km1, w2)
           | Inr opts \<Rightarrow>
               let digest = (if opts \<noteq> Hash0 then sha256 d signingInput else signingInput)
               in (case priv ck of
                  None \<Rightarrow> (Inl (Panic ''nil pointer dereference''), km1, w2)
                | Some p \<Rightarrow>
                    (case signer_Sign d p digest opts w2 of
                       (Inl err, w3) \<Rightarrow> (Inl err, km1, w3)
                     | (Inr sig, w3) \<Rightarrow>
                         if alg \<noteq> AlgES256 then (Inr sig, km1, w3)
                         else
                           (case DERToRawECDSA alg sig of
                              Inl err \<Rightarrow> (Inl (ErrEcdsaConvert err), km1, w3)
                            | Inr rawSig \<Rightarrow> (Inr rawSig, km1, w3))))))"
  using assms by (simp add: Sign_def)

lemma Sign_builder_error:
  assumes "activeKey d alg km w = (Some ck, km1, w1)" and "key ck = Some k"
    and "build (KID k) w1 = (Inl err, w2)"
  shows "Sign d alg build km w = (Inl err, km1, w2)"
  using assms by (simp add: Sign_resolved)

lemma Sign_builder_only_kid:
  assumes "activeKey d alg km w = (Some ck, km1, w1)" and "key ck = Some k"
    and "build' (KID k) = build (KID k)"
  shows "Sign d alg build' km w = Sign d alg build km w"
  using assms by (simp add: Sign_resolved)

lemma signingOptions_ES256: "signingOptions AlgES256 = Inr SHA256"
  by (simp add: signingOptions_def)

lemma Sign_ES256_raw:
  assumes ak: "activeKey d AlgES256 km w = (Some ck, km1, w1)" and k: "key ck = Some k"
    and ok: "Sign d AlgES256 build km w = (Inr sig, km2, w')"
  shows "length sig = 64 \<and>
     (\<exists>signingInput w2 p der.
        build (KID k) w1 = (Inr signingInput, w2) \<and> priv ck = Some p
        \<and> signer_Sign d p (sha256 d signingInput) SHA256 w2 = (Inr der, w')
        \<and> DERToRawECDSA AlgES256 der = Inr sig)"
proof -
  have e: "Sign d AlgES256 build km w =
     (case build (KID k) w1 of
        (Inl err, w2) \<Rightarrow> (Inl err, km1, w2)
      | (Inr signingInput, w2) \<Rightarrow>
          (case priv ck of
             None \<Rightarrow> (Inl (Panic ''nil pointer dereference''), km1, w2)
           | Some p \<Rightarrow>
               (case signer_Sign d p (sha256 d signingInput) SHA256 w2 of
                  (Inl err, w3) \<Rightarrow> (Inl err, km1, w3)
                | (Inr der, w3) \<Rightarrow>
                    (case DERToRawECDSA AlgES256 der of
                       Inl err \<Rightarrow> (Inl (ErrEcdsaConvert err), km1, w3)
                     | Inr rawSig \<Rightarrow> (Inr rawSig, km1, w3)))))"
    by (simp add: Sign_resolved [OF ak k] signingOptions_ES256 Let_def
          split: prod.splits sum.splits option.splits)
  obtain r1 w2 where b: "build (KID k) w1 = (r1, w2)" by (cases "build (KID k) w1")
  show ?thesis
  proof (cases r1)
    case (Inl err)
    with ok e b show ?thesis by simp
  next
    case (Inr signingInput)
    note inp = this
    show ?thesis
    proof (cases "priv ck")
      case None
      with ok e b inp show ?thesis by simp
    next
      case (Some p)
      obtain r2 w3 where s: "signer_Sign d p (sha256 d signingInput) SHA256 w2 = (r2, w3)"
        by (cases "signer_Sign d p (sha256 d signingInput) SHA256 w2")
      show ?thesis
      proof (cases r2)
        case (Inl err)
        with ok e b inp Some s show ?thesis by simp
      next
        case (Inr der)
        note dr = this
        show ?thesis
        proof (cases "DERToRawECDSA AlgES256 der")
          case (Inl err)
          with ok e b inp Some s dr show ?thesis by simp
        next
          case (Inr rawSig)
          with ok e b inp Some s dr have eq: "rawSig = sig" "w3 = w'" by simp_all
          from Inr eq have c: "DERToRawECDSA AlgES256 der = Inr sig" by simp
          then have "length sig = 64" by (rule DERToRawECDSA_length)
          with b inp Some s dr c eq show ?thesis by auto
        qed
      qed
    qed
  qed
qed

lemma Alg_distinct:
  "AlgRS256 \<noteq> AlgES256" "AlgRS256 \<noteq> AlgEdDSA" "AlgES256 \<noteq> AlgEdDSA"
  "AlgES256 \<noteq> AlgRS256" "AlgEdDSA \<noteq> AlgRS256" "AlgEdDSA \<noteq> AlgES256"
  by (simp_all add: AlgRS256_def AlgES256_def AlgEdDSA_def)

lemma signingOptions_cases:
  "signingOptions AlgRS256 = Inr SHA256"
  "signingOptions AlgEdDSA = Inr Hash0"
  "alg \<noteq> AlgRS256 \<Longrightarrow> alg \<noteq> AlgES256 \<Longrightarrow> alg \<noteq> AlgEdDSA
     \<Longrightarrow> signingOptions alg = Inl (ErrUnsupportedAlgorithm alg)"
  by (simp_all add: signingOptions_def Alg_distinct)

lemma activeKey_resolved:
  assumes "(lookup (active km) alg = Some ck \<and> km1 = km \<and> w1 = w)
     \<or> (lookup (active km) alg = None \<and> ReloadCache d km w = (rerr, km1, w1)
         \<and> lookup (active km1) alg = Some ck)"
  shows "activeKey d alg km w = (Some ck, km1, w1)"
  using assms by (auto simp add: activeKey_def)

lemma Sign_signed:
  assumes ak: "activeKey d alg km w = (Some ck, km1, w1)" and k: "key ck = Some k"
    and b: "build (KID k) w1 = (Inr signingInput, w2)" and p: "priv ck = Some p"
  shows "(alg = AlgRS256 \<and> signer_Sign d p (sha256 d signingInput) SHA256 w2 = (Inr sig, w3)
            \<longrightarrow> Sign d alg build km w = (Inr sig, km1, w3))
     \<and> (alg = AlgEdDSA \<and> signer_Sign d p signingInput Hash0 w2 = (Inr sig, w3)
            \<longrightarrow> Sign d alg build km w = (Inr sig, km1, w3))
     \<and> (alg = AlgES256 \<and> signer_Sign d p (sha256 d signingInput) SHA256 w2 = (Inr sig, w3)
            \<longrightarrow> Sign d alg build km w =
                  (case DERToRawECDSA AlgES256 sig of
                     Inl e \<Rightarrow> (Inl (ErrEcdsaConvert e), km1, w3)
                   | Inr rawSig \<Rightarrow> (Inr rawSig, km1, w3)))
     \<and> (alg \<noteq> AlgEdDSA \<and> signer_Sign d p (sha256 d signingInput) SHA256 w2 = (Inl serr, w3)
          \<and> (alg = AlgRS256 \<or> alg = AlgES256)
            \<longrightarrow> Sign d alg build km w = (Inl serr, km1, w3))
     \<and> (alg = AlgEdDSA \<and> signer_Sign d p signingInput Hash0 w2 = (Inl serr, w3)
            \<longrightarrow> Sign d alg build km w = (Inl serr, km1, w3))
     \<and> (alg \<noteq> AlgRS256 \<and> alg \<noteq> AlgES256 \<and> alg \<noteq> AlgEdDSA
            \<longrightarrow> Sign d alg build km w = (Inl (ErrUnsupportedAlgorithm alg), km1, w2))"
proof -
  have e: "Sign d alg build km w =
     (case signingOptions alg of
        Inl err \<Rightarrow> (Inl err, km1, w2)
      | Inr opts \<Rightarrow>
          let digest = (if opts \<noteq> Hash0 then sha256 d signingInput else signingInput)
          in (case signer_Sign d p digest opts w2 of
                (Inl err, w3) \<Rightarrow> (Inl err, km1, w3)
              | (Inr sig, w3) \<Rightarrow>
                  if alg \<noteq> AlgES256 then (Inr sig, km1, w3)
                  else
                    (case DERToRawECDSA alg sig of
                       Inl err \<Rightarrow> (Inl (ErrEcdsaConvert err), km1, w3)
                     | Inr rawSig \<Rightarrow> (Inr rawSig, km1, w3))))"
    by (cases "signingOptions alg") (simp_all add: Sign_resolved [OF ak k] b p)
  show ?thesis
  proof (intro conjI impI)
    assume "alg = AlgRS256 \<and> signer_Sign d p (sha256 d signingInput) SHA256 w2 = (Inr sig, w3)"
    then show "Sign d alg build km w = (Inr sig, km1, w3)"
      unfolding e by (simp add: signingOptions_cases Alg_distinct)
  next
    assume "alg = AlgEdDSA \<and> signer_Sign d p signingInput Hash0 w2 = (Inr sig, w3)"
    then show "Sign d alg build km w = (Inr sig, km1, w3)"
      unfolding e by (simp add: signingOptions_cases Alg_distinct)
  next
    assume "alg = AlgES256 \<and> signer_Sign d p (sha256 d signingInput) SHA256 w2 = (Inr sig, w3)"
    then show "Sign d alg build km w =
                  (case DERToRawECDSA AlgES256 sig of
                     Inl e \<Rightarrow> (Inl (ErrEcdsaConvert e), km1, w3)
                   | Inr rawSig \<Rightarrow> (Inr rawSig, km1, w3))"
      unfolding e by (simp add: signingOptions_ES256)
  next
    assume a: "alg \<noteq> AlgEdDSA \<and> signer_Sign d p (sha256 d signingInput) SHA256 w2 = (Inl serr, w3)
          \<and> (alg = AlgRS256 \<or> alg = AlgES256)"
    then have "signingOptions alg = Inr SHA256"
      by (auto simp add: signingOptions_cases signingOptions_ES256)
    with a show "Sign d alg build km w = (Inl serr, km1, w3)"
      unfolding e by simp
  next
    assume "alg = AlgEdDSA \<and> signer_Sign d p signingInput Hash0 w2 = (Inl serr, w3)"
    then show "Sign d alg build km w = (Inl serr, km1, w3)"
      unfolding e by (simp add: signingOptions_cases)
  next
    assume "alg \<noteq> AlgRS256 \<and> alg \<noteq> AlgES256 \<and> alg \<noteq> AlgEdDSA"
    then show "Sign d alg build km w = (Inl (ErrUnsupportedAlgorithm alg), km1, w2)"
      unfolding e by (simp add: signingOptions_cases)
  qed
qed

text \<open>
  C5.  \<open>Sign\<close> with the key that is active for the algorithm: the entry of the active map
  for \<open>alg\<close>, or, when there is none, the entry after one reload of the cache.  The payload
  builder is given that key's id and nothing else: a builder that agrees with it at this id
  gives the same outcome, and an error of the builder at this id is the outcome of \<open>Sign\<close>.
  The bytes the builder returns are what is signed, with that key: for RS256 the key signs
  their SHA-256 digest and \<open>Sign\<close> returns the signature as it is; for EdDSA the key signs
  the bytes themselves and \<open>Sign\<close> returns the signature as it is; for ES256 the key signs
  their SHA-256 digest and \<open>Sign\<close> returns \<open>DERToRawECDSA\<close> of the signature, or the
  conversion error.  An error of the key is the outcome of \<open>Sign\<close>, and any other algorithm
  is refused after the builder has run.  Every signature \<open>Sign\<close> returns for ES256 is 64
  bytes long: the DER form never reaches the caller.
\<close>

theorem Sign_contract:
  "((lookup (active km) alg = Some ck \<and> km1 = km \<and> w1 = w)
      \<or> (lookup (active km) alg = None \<and> ReloadCache d km w = (rerr, km1, w1)
          \<and> lookup (active km1) alg = Some ck))
     \<and> key ck = Some k
   \<longrightarrow>
     (\<forall>build'. build' (KID k) = build (KID k) \<longrightarrow> Sign d alg build' km w = Sign d alg build km w)
     \<and> (\<forall>err w2. build (KID k) w1 = (Inl err, w2) \<longrightarrow> Sign d alg build km w = (Inl err, km1, w2))
     \<and> (\<forall>signingInput w2 p sig serr w3.
          build (KID k) w1 = (Inr signingInput, w2) \<and> priv ck = Some p \<longrightarrow>
            (alg = AlgRS256 \<and> signer_Sign d p (sha256 d signingInput) SHA256 w2 = (Inr sig, w3)
               \<longrightarrow> Sign d alg build km w = (Inr sig, km1, w3))
            \<and> (alg = AlgEdDSA \<and> signer_Sign d p signingInput Hash0 w2 = (Inr sig, w3)
               \<longrightarrow> Sign d alg build km w = (Inr sig, km1, w3))
            \<and> (alg = AlgES256 \<and> signer_Sign d p (sha256 d signingInput) SHA256 w2 = (Inr sig, w3)
               \<longrightarrow> Sign d alg build km w =
                     (case DERToRawECDSA AlgES256 sig of
                        Inl e \<Rightarrow> (Inl (ErrEcdsaConvert e), km1, w3)
                      | Inr rawSig \<Rightarrow> (Inr rawSig, km1, w3)))
            \<and> (alg \<noteq> AlgEdDSA \<and> signer_Sign d p (sha256 d signingInput) SHA256 w2 = (Inl serr, w3)
                 \<and> (alg = AlgRS256 \<or> alg = AlgES256)
               \<longrightarrow> Sign d alg build km w = (Inl serr, km1, w3))
            \<and> (alg = AlgEdDSA \<and> signer_Sign d p signingInput Hash0 w2 = (Inl serr, w3)
               \<longrightarrow> Sign d alg build km w = (Inl serr, km1, w3))
            \<and> (alg \<noteq> AlgRS256 \<and> alg \<noteq> AlgES256 \<and> alg \<noteq> AlgEdDSA
               \<longrightarrow> Sign d alg build km w = (Inl (ErrUnsupportedAlgorithm alg), km1, w2)))
     \<and> (\<forall>sig km2 w'. alg = AlgES256 \<and> Sign d alg build km w = (Inr sig, km2, w') \<longrightarrow>
          length sig = 64 \<and>
          (\<exists>signingInput w2 p der.
             build (KID k) w1 = (Inr signingInput, w2) \<and> priv ck = Some p
             \<and> signer_Sign d p (sha256 d signingInput) SHA256 w2 = (Inr der, w')
             \<and> DERToRawECDSA AlgES256 der = Inr sig))"
proof
  assume a: "((lookup (active km) alg = Some ck \<and> km1 = km \<and> w1 = w)
      \<or> (lookup (active km) alg = None \<and> ReloadCache d km w = (rerr, km1, w1)
          \<and> lookup (active km1) alg = Some ck))
     \<and> key ck = Some k"
  then have ak: "activeKey d alg km w = (Some ck, km1, w1)"
    using activeKey_resolved [of km alg ck km1 w1 w d rerr] by blast
  from a have k: "key ck = Some k" by simp
  have c1: "\<forall>build'. build' (KID k) = build (KID k) \<longrightarrow> Sign d alg build' km w = Sign d alg build km w"
    using Sign_builder_only_kid [OF ak k] by blast
  have c2: "\<forall>err w2. build (KID k) w1 = (Inl err, w2) \<longrightarrow> Sign d alg build km w = (Inl err, km1, w2)"
    using Sign_builder_error [OF ak k] by blast
  have c3: "\<forall>signingInput w2 p sig serr w3.
          build (KID k) w1 = (Inr signingInput, w2) \<and> priv ck = Some p \<longrightarrow>
            (alg = AlgRS256 \<and> signer_Sign d p (sha256 d signingInput) SHA256 w2 = (Inr sig, w3)
               \<longrightarrow> Sign d alg build km w = (Inr sig, km1, w3))
            \<and> (alg = AlgEdDSA \<and> signer_Sign d p signingInput Hash0 w2 = (Inr sig, w3)
               \<longrightarrow> Sign d alg build km w = (Inr sig, km1, w3))
            \<and> (alg = AlgES256 \<and> signer_Sign d p (sha256 d signingInput) SHA256 w2 = (Inr sig, w3)
               \<longrightarrow> Sign d alg build km w =
                     (case DERToRawECDSA AlgES256 sig of
                        Inl e \<Rightarrow> (Inl (ErrEcdsaConvert e), km1, w3)
                      | Inr rawSig \<Rightarrow> (Inr rawSig, km1, w3)))
            \<and> (alg \<noteq> AlgEdDSA \<and> signer_Sign d p (sha256 d signingInput) SHA256 w2 = (Inl serr, w3)
                 \<and> (alg = AlgRS256 \<or> alg = AlgES256)
               \<longrightarrow> Sign d alg build km w = (Inl serr, km1, w3))
            \<and> (alg = AlgEdDSA \<and> signer_Sign d p signingInput Hash0 w2 = (Inl serr, w3)
               \<longrightarrow> Sign d alg build km w = (Inl serr, km1, w3))
            \<and> (alg \<noteq> AlgRS256 \<and> alg \<noteq> AlgES256 \<and> alg \<noteq> AlgEdDSA
               \<longrightarrow> Sign d alg build km w = (Inl (ErrUnsupportedAlgorithm alg), km1, w2))"
  proof (intro allI impI)
    fix signingInput w2 p sig serr w3
    assume "build (KID k) w1 = (Inr signingInput, w2) \<and> priv ck = Some p"
    then have b: "build (KID k) w1 = (Inr signingInput, w2)" and p: "priv ck = Some p" by simp_all
    show "(alg = AlgRS256 \<and> signer_Sign d p (sha256 d signingInput) SHA256 w2 = (Inr sig, w3)
               \<longrightarrow> Sign d alg build km w = (Inr sig, km1, w3))
            \<and> (alg = AlgEdDSA \<and> signer_Sign d p signingInput Hash0 w2 = (Inr sig, w3)
               \<longrightarrow> Sign d alg build km w = (Inr sig, km1, w3))
            \<and> (alg = AlgES256 \<and> signer_Sign d p (sha256 d signingInput) SHA256 w2 = (Inr sig, w3)
               \<longrightarrow> Sign d alg build km w =
                     (case DERToRawECDSA AlgES256 sig of
                        Inl e \<Rightarrow> (Inl (ErrEcdsaConvert e), km1, w3)
                      | Inr rawSig \<Rightarrow> (Inr rawSig, km1, w3)))
            \<and> (alg \<noteq> AlgEdDSA \<and> signer_Sign d p (sha256 d signingInput) SHA256 w2 = (Inl serr, w3)
                 \<and> (alg = AlgRS256 \<or> alg = AlgES256)
               \<longrightarrow> Sign d alg build km w = (Inl serr, km1, w3))
            \<and> (alg = AlgEdDSA \<and> signer_Sign d p signingInput Hash0 w2 = (Inl serr, w3)
               \<longrightarrow> Sign d alg build km w = (Inl serr, km1, w3))
            \<and> (alg \<noteq> AlgRS256 \<and> alg \<noteq> AlgES256 \<and> alg \<noteq> AlgEdDSA
               \<longrightarrow> Sign d alg build km w = (Inl (ErrUnsupportedAlgorithm alg), km1, w2))"
      by (rule Sign_signed [where build = build, OF ak k b p])
  qed
  have c4: "\<forall>sig km2 w'. alg = AlgES256 \<and> Sign d alg build km w = (Inr sig, km2, w') \<longrightarrow>
          length sig = 64 \<and>
          (\<exists>signingInput w2 p der.
             build (KID k) w1 = (Inr signingInput, w2) \<and> priv ck = Some p
             \<and> signer_Sign d p (sha256 d signingInput) SHA256 w2 = (Inr der, w')
             \<and> DERToRawECDSA AlgES256 der = Inr sig)"
  proof (intro allI impI)
    fix sig km2 w'
    assume b: "alg = AlgES256 \<and> Sign d alg build km w = (Inr sig, km2, w')"
    then have alg: "alg = AlgES256" by simp
    from ak alg have ak': "activeKey d AlgES256 km w = (Some ck, km1, w1)" by simp
    from b alg have ok: "Sign d AlgES256 build km w = (Inr sig, km2, w')" by simp
    show "length sig = 64 \<and>
          (\<exists>signingInput w2 p der.
             build (KID k) w1 = (Inr signingInput, w2) \<and> priv ck = Some p
             \<and> signer_Sign d p (sha256 d signingInput) SHA256 w2 = (Inr der, w')
             \<and> DERToRawECDSA AlgES256 der = Inr sig)"
      using ak' k ok by (rule Sign_ES256_raw)
  qed
  from c1 c2 c3 c4 show "(\<forall>build'. build' (KID k) = build (KID k) \<longrightarrow> Sign d alg build' km w = Sign d alg build km w)
     \<and> (\<forall>err w2. build (KID k) w1 = (Inl err, w2) \<longrightarrow> Sign d alg build km w = (Inl err, km1, w2))
     \<and> (\<forall>signingInput w2 p sig serr w3.
          build (KID k) w1 = (Inr signingInput, w2) \<and> priv ck = Some p \<longrightarrow>
            (alg = AlgRS256 \<and> signer_Sign d p (sha256 d signingInput) SHA256 w2 = (Inr sig, w3)
               \<longrightarrow> Sign d alg build km w = (Inr sig, km1, w3))
            \<and> (alg = AlgEdDSA \<and> signer_Sign d p signingInput Hash0 w2 = (Inr sig, w3)
               \<longrightarrow> Sign d alg build km w = (Inr sig, km1, w3))
            \<and> (alg = AlgES256 \<and> signer_Sign d p (sha256 d signingInput) SHA256 w2 = (Inr sig, w3)
               \<longrightarrow> Sign d alg build km w =
                     (case DERToRawECDSA AlgES256 sig of
                        Inl e \<Rightarrow> (Inl (ErrEcdsaConvert e), km1, w3)
                      | Inr rawSig \<Rightarrow> (Inr rawSig, km1, w3)))
            \<and> (alg \<noteq> AlgEdDSA \<and> signer_Sign d p (sha256 d signingInput) SHA256 w2 = (Inl serr, w3)
                 \<and> (alg = AlgRS256 \<or> alg = AlgES256)
               \<longrightarrow> Sign d alg build km w = (Inl serr, km1, w3))
            \<and> (alg = AlgEdDSA \<and> signer_Sign d p signingInput Hash0 w2 = (Inl serr, w3)
               \<longrightarrow> Sign d alg build km w = (Inl serr, km1, w3))
            \<and> (alg \<noteq> AlgRS256 \<and> alg \<noteq> AlgES256 \<and> alg \<noteq> AlgEdDSA
               \<longrightarrow> Sign d alg build km w = (Inl (ErrUnsupportedAlgorithm alg), km1, w2)))
     \<and> (\<forall>sig km2 w'. alg = AlgES256 \<and> Sign d alg build km w = (Inr sig, km2, w') \<longrightarrow>
          length sig = 64 \<and>
          (\<exists>signingInput w2 p der.
             build (KID k) w1 = (Inr signingInput, w2) \<and> priv ck = Some p
             \<and> signer_Sign d p (sha256 d signingInput) SHA256 w2 = (Inr der, w')
             \<and> DERToRawECDSA AlgES256 der = Inr sig))"
    by (intro conjI)
qed

text \<open>
  With an active key for each algorithm: for ES256 the builder is called with \<open>ec1\<close> (the
  world records it) and the signature is the 64-byte form of \<open>(12345, 67890)\<close>; for RS256
  the builder is called with \<open>rsa1\<close> and the signature is the RSA signature of the digest of
  the four bytes built; for EdDSA the builder is called with \<open>ed1\<close> and the signature is
  the Ed25519 signature of the three bytes built.  With an empty cache and the ES256 key in
  the store, one reload finds the key.  A builder that fails on every other id changes
  nothing, and a failing builder fails the call.
\<close>

theorem Sign_contract_witness:
  "Sign test_deps_sign AlgES256 test_build test_manager_all (test_world [])
     = (Inr (replicate 30 0 @ [0x30, 0x39] @ replicate 29 0 @ [0x01, 0x09, 0x32]), test_manager_all,
        (test_world [])\<lparr>built := [''ec1'']\<rparr>)
   \<and> Sign test_deps_sign AlgRS256 test_build test_manager_all (test_world [])
     = (Inr [0x52, 4], test_manager_all, (test_world [])\<lparr>built := [''rsa1'']\<rparr>)
   \<and> Sign test_deps_sign AlgEdDSA test_build test_manager_all (test_world [])
     = (Inr [0xED, 0x65, 0x64, 0x31], test_manager_all, (test_world [])\<lparr>built := [''ed1'']\<rparr>)
   \<and> Sign test_deps_sign AlgES256 test_build empty_manager test_world_ec
     = (Inr (replicate 30 0 @ [0x30, 0x39] @ replicate 29 0 @ [0x01, 0x09, 0x32]), test_manager,
        test_world_ec\<lparr>ListCount := 1, built := [''ec1'']\<rparr>)
   \<and> Sign test_deps_sign AlgES256
        (\<lambda>kid w. if kid = ''ec1'' then test_build kid w else (Inl (ErrExternal ''another id''), w))
        test_manager_all (test_world [])
     = Sign test_deps_sign AlgES256 test_build test_manager_all (test_world [])
   \<and> Sign test_deps_sign AlgRS256 (\<lambda>kid w. (Inl (ErrExternal ''no payload''), w))
        test_manager_all (test_world [])
     = (Inl (ErrExternal ''no payload''), test_manager_all, test_world [])"
proof -
  let ?d = "test_deps_sign"
  let ?krsa = "test_key ''rsa1'' AlgRS256 True [1]"
  let ?kec = "test_key ''ec1'' AlgES256 True [2]"
  let ?ked = "test_key ''ed1'' AlgEdDSA True [3]"
  let ?w0 = "test_world []"
  let ?raw = "replicate 30 0 @ [0x30, 0x39] @ replicate 29 0 @ [0x01, 0x09, 0x32 :: byte]"
  have hit_ec: "lookup (active test_manager_all) AlgES256 = Some (test_ck ?kec test_ec)
      \<and> test_manager_all = test_manager_all \<and> ?w0 = ?w0"
    by (simp add: test_manager_all_def lookup_def AlgRS256_def AlgES256_def AlgEdDSA_def)
  have hit_rsa: "lookup (active test_manager_all) AlgRS256 = Some (test_ck ?krsa test_rsa)
      \<and> test_manager_all = test_manager_all \<and> ?w0 = ?w0"
    by (simp add: test_manager_all_def lookup_def AlgRS256_def AlgES256_def AlgEdDSA_def)
  have hit_ed: "lookup (active test_manager_all) AlgEdDSA = Some (test_ck ?ked test_ed)
      \<and> test_manager_all = test_manager_all \<and> ?w0 = ?w0"
    by (simp add: test_manager_all_def lookup_def AlgRS256_def AlgES256_def AlgEdDSA_def)
  have miss: "lookup (active empty_manager) AlgES256 = None
      \<and> ReloadCache ?d empty_manager test_world_ec = (None, test_manager, test_world_ec\<lparr>ListCount := 1\<rparr>)
      \<and> lookup (active test_manager) AlgES256 = Some (test_ck ?kec test_ec)"
    by (simp add: empty_manager_def ReloadCache_def test_deps_sign_def test_world_ec_def harness_eval)
  have krsa: "key (test_ck ?krsa test_rsa) = Some ?krsa" by (simp add: test_ck_def)
  have kec: "key (test_ck ?kec test_ec) = Some ?kec" by (simp add: test_ck_def)
  have ked: "key (test_ck ?ked test_ed) = Some ?ked" by (simp add: test_ck_def)
  have der: "DERToRawECDSA AlgES256 test_der = Inr ?raw"
    using DERToRawECDSA_fits [of test_der "\<lparr>R = 12345, S = 67890\<rparr>" "[]" AlgES256]
    by (simp add: test_der_def unmarshal_12345 Bytes_12345 Bytes_67890 leftpad_def)
  have b_ec: "test_build (KID ?kec) ?w0 = (Inr [0x65, 0x63, 0x31], ?w0\<lparr>built := [''ec1'']\<rparr>)
      \<and> priv (test_ck ?kec test_ec) = Some test_ec"
    by (simp add: test_build_def test_key_def test_ck_def test_world_def)
  have b_rsa: "test_build (KID ?krsa) ?w0 = (Inr [0x72, 0x73, 0x61, 0x31], ?w0\<lparr>built := [''rsa1'']\<rparr>)
      \<and> priv (test_ck ?krsa test_rsa) = Some test_rsa"
    by (simp add: test_build_def test_key_def test_ck_def test_world_def)
  have b_ed: "test_build (KID ?ked) ?w0 = (Inr [0x65, 0x64, 0x31], ?w0\<lparr>built := [''ed1'']\<rparr>)
      \<and> priv (test_ck ?ked test_ed) = Some test_ed"
    by (simp add: test_build_def test_key_def test_ck_def test_world_def)
  have b_miss: "test_build (KID ?kec) (test_world_ec\<lparr>ListCount := 1\<rparr>)
        = (Inr [0x65, 0x63, 0x31], test_world_ec\<lparr>ListCount := 1, built := [''ec1'']\<rparr>)
      \<and> priv (test_ck ?kec test_ec) = Some test_ec"
    by (simp add: test_build_def test_key_def test_ck_def test_world_def test_world_ec_def)
  have sg_ec: "AlgES256 = AlgES256 \<and> signer_Sign ?d test_ec (sha256 ?d [0x65, 0x63, 0x31]) SHA256
        (?w0\<lparr>built := [''ec1'']\<rparr>) = (Inr test_der, ?w0\<lparr>built := [''ec1'']\<rparr>)"
    by (simp add: test_deps_sign_def test_deps_def test_ec_def)
  have sg_rsa: "AlgRS256 = AlgRS256 \<and> signer_Sign ?d test_rsa (sha256 ?d [0x72, 0x73, 0x61, 0x31]) SHA256
        (?w0\<lparr>built := [''rsa1'']\<rparr>) = (Inr [0x52, 4], ?w0\<lparr>built := [''rsa1'']\<rparr>)"
    by (simp add: test_deps_sign_def test_deps_def test_rsa_def)
  have sg_ed: "AlgEdDSA = AlgEdDSA \<and> signer_Sign ?d test_ed [0x65, 0x64, 0x31] Hash0
        (?w0\<lparr>built := [''ed1'']\<rparr>) = (Inr [0xED, 0x65, 0x64, 0x31], ?w0\<lparr>built := [''ed1'']\<rparr>)"
    by (simp add: test_deps_sign_def test_deps_def test_ed_def)
  have sg_miss: "AlgES256 = AlgES256 \<and> signer_Sign ?d test_ec (sha256 ?d [0x65, 0x63, 0x31]) SHA256
        (test_world_ec\<lparr>ListCount := 1, built := [''ec1'']\<rparr>)
        = (Inr test_der, test_world_ec\<lparr>ListCount := 1, built := [''ec1'']\<rparr>)"
    by (simp add: test_deps_sign_def test_deps_def test_ec_def)
  have s1: "Sign ?d AlgES256 test_build test_manager_all ?w0
     = (Inr ?raw, test_manager_all, ?w0\<lparr>built := [''ec1'']\<rparr>)"
    using Sign_contract [where d = ?d and alg = AlgES256 and km = test_manager_all and w = ?w0
        and ?km1.0 = test_manager_all and ?w1.0 = ?w0 and k = ?kec and build = test_build,
        THEN mp, OF conjI [OF disjI1 [OF hit_ec] kec], THEN conjunct2, THEN conjunct2, THEN conjunct1,
        THEN spec, THEN spec, THEN spec, THEN spec, THEN spec, THEN spec,
        THEN mp, OF b_ec, THEN conjunct2, THEN conjunct2, THEN conjunct1, THEN mp, OF sg_ec]
    by (simp only: der sum.case)
  have s2: "Sign ?d AlgRS256 test_build test_manager_all ?w0
     = (Inr [0x52, 4], test_manager_all, ?w0\<lparr>built := [''rsa1'']\<rparr>)"
    by (rule Sign_contract [where d = ?d and alg = AlgRS256 and km = test_manager_all and w = ?w0
        and ?km1.0 = test_manager_all and ?w1.0 = ?w0 and k = ?krsa and build = test_build,
        THEN mp, OF conjI [OF disjI1 [OF hit_rsa] krsa], THEN conjunct2, THEN conjunct2, THEN conjunct1,
        THEN spec, THEN spec, THEN spec, THEN spec, THEN spec, THEN spec,
        THEN mp, OF b_rsa, THEN conjunct1, THEN mp, OF sg_rsa])
  have s3: "Sign ?d AlgEdDSA test_build test_manager_all ?w0
     = (Inr [0xED, 0x65, 0x64, 0x31], test_manager_all, ?w0\<lparr>built := [''ed1'']\<rparr>)"
    by (rule Sign_contract [where d = ?d and alg = AlgEdDSA and km = test_manager_all and w = ?w0
        and ?km1.0 = test_manager_all and ?w1.0 = ?w0 and k = ?ked and build = test_build,
        THEN mp, OF conjI [OF disjI1 [OF hit_ed] ked], THEN conjunct2, THEN conjunct2, THEN conjunct1,
        THEN spec, THEN spec, THEN spec, THEN spec, THEN spec, THEN spec,
        THEN mp, OF b_ed, THEN conjunct2, THEN conjunct1, THEN mp, OF sg_ed])
  have s4: "Sign ?d AlgES256 test_build empty_manager test_world_ec
     = (Inr ?raw, test_manager, test_world_ec\<lparr>ListCount := 1, built := [''ec1'']\<rparr>)"
    using Sign_contract [where d = ?d and alg = AlgES256 and km = empty_manager and w = test_world_ec
        and ?km1.0 = test_manager and ?w1.0 = "test_world_ec\<lparr>ListCount := 1\<rparr>" and k = ?kec
        and build = test_build,
        THEN mp, OF conjI [OF disjI2 [OF miss] kec], THEN conjunct2, THEN conjunct2, THEN conjunct1,
        THEN spec, THEN spec, THEN spec, THEN spec, THEN spec, THEN spec,
        THEN mp, OF b_miss, THEN conjunct2, THEN conjunct2, THEN conjunct1, THEN mp, OF sg_miss]
    by (simp only: der sum.case)
  have s5: "Sign ?d AlgES256
        (\<lambda>kid w. if kid = ''ec1'' then test_build kid w else (Inl (ErrExternal ''another id''), w))
        test_manager_all ?w0 = Sign ?d AlgES256 test_build test_manager_all ?w0"
    by (rule Sign_contract [where d = ?d and alg = AlgES256 and km = test_manager_all and w = ?w0
        and ?km1.0 = test_manager_all and ?w1.0 = ?w0 and k = ?kec and build = test_build,
        THEN mp, OF conjI [OF disjI1 [OF hit_ec] kec], THEN conjunct1, THEN spec, THEN mp])
       (simp add: test_key_def)
  have s6: "Sign ?d AlgRS256 (\<lambda>kid w. (Inl (ErrExternal ''no payload''), w)) test_manager_all ?w0
     = (Inl (ErrExternal ''no payload''), test_manager_all, ?w0)"
    by (rule Sign_contract [where d = ?d and alg = AlgRS256 and km = test_manager_all and w = ?w0
        and ?km1.0 = test_manager_all and ?w1.0 = ?w0 and k = ?krsa
        and build = "\<lambda>kid w. (Inl (ErrExternal ''no payload''), w)",
        THEN mp, OF conjI [OF disjI1 [OF hit_rsa] krsa], THEN conjunct2, THEN conjunct1,
        THEN spec, THEN spec, THEN mp]) simp
  from s1 s2 s3 s4 s5 s6 show ?thesis by blast
qed

subsection \<open>Bootstrap and expiry\<close>

lemma InitKeys_append:
  "InitKeys d (pre @ rest) km w =
     (case InitKeys d pre km w of
        (Some err, km1, w1) \<Rightarrow> (Some err, km1, w1)
      | (None, km1, w1) \<Rightarrow> InitKeys d rest km1 w1)"
proof (induction pre arbitrary: km w)
  case Nil
  then show ?case by simp
next
  case (Cons alg pre)
  show ?case
    by (simp add: Cons.IH split: prod.splits option.splits)
qed

lemma InitKeys_stops:
  assumes "InitKeys d pre km w = (None, km1, w1)"
    and "map_of (active km1) alg = None"
    and "Rotate d alg km1 w1 = (Some err, km2, w2)"
  shows "InitKeys d (pre @ alg # post) km w = (Some (ErrInitKey alg err), km2, w2)"
  using assms by (simp add: InitKeys_append)

lemma InitKeys_skips:
  assumes "map_of (active km) alg \<noteq> None"
  shows "InitKeys d (alg # algs) km w = InitKeys d algs km w"
  using assms by simp


lemma RotateExpired_loop_each:
  assumes "\<forall>p \<in> set snapshot. \<exists>b. is_expired (snd p) now = Inr b"
  shows "RotateExpired_loop d now snapshot errs km w =
     (case rotate_each d (expired_algs now snapshot) km w of
        (es, km2, w2) \<Rightarrow> (Inr (errs @ es), km2, w2))"
  using assms
proof (induction snapshot arbitrary: errs km w)
  case Nil
  then show ?case by (simp add: expired_algs_def)
next
  case (Cons p snapshot)
  obtain alg ckp where p: "p = (alg, ckp)" by (cases p)
  from Cons.prems p obtain b where b: "is_expired ckp now = Inr b" by auto
  from Cons.prems have rest: "\<forall>p \<in> set snapshot. \<exists>b. is_expired (snd p) now = Inr b" by simp
  note ih = Cons.IH [OF rest]
  show ?case
  proof (cases b)
    case False
    with b have "expired_algs now ((alg, ckp) # snapshot) = expired_algs now snapshot"
      by (simp add: expired_algs_def)
    with p b False show ?thesis by (simp add: ih)
  next
    case True
    with b have e: "expired_algs now ((alg, ckp) # snapshot) = alg # expired_algs now snapshot"
      by (simp add: expired_algs_def)
    obtain r km1 w1 where r: "Rotate d alg km w = (r, km1, w1)" by (cases "Rotate d alg km w")
    show ?thesis
      using p b True r by (cases r) (simp_all add: e ih split: prod.splits)
  qed
qed

lemma Rotate_unknown_alg:
  assumes "alg \<noteq> AlgRS256" "alg \<noteq> AlgES256" "alg \<noteq> AlgEdDSA"
  shows "Rotate (test_deps test_policy False) alg km (test_world kvs\<lparr>ListCount := n\<rparr>)
     = (Some (ErrUnknownAlg alg), km, test_world kvs\<lparr>ListCount := n + 1\<rparr>)"
  using assms
  by (simp add: Rotate_def Rotate_prepare_def generatePrivateKey_def test_deps_def test_world_def
        test_policy_def MockStore_List_def)

lemma init_step_failed: "foldl (init_step d) (Some err, km, w) algs = (Some err, km, w)"
  by (induction algs) (simp_all add: init_step_def)

lemma InitKeys_foldl: "InitKeys d algs km w = foldl (init_step d) (None, km, w) algs"
proof (induction algs arbitrary: km w)
  case Nil
  then show ?case by simp
next
  case (Cons alg algs)
  show ?case
  proof (cases "map_of (active km) alg \<noteq> None")
    case True
    then have st: "init_step d (None, km, w) alg = (None, km, w)"
      by (simp add: init_step_def)
    from True show ?thesis by (simp add: st Cons.IH)
  next
    case False
    obtain r km1 w1 where r: "Rotate d alg km w = (r, km1, w1)" by (cases "Rotate d alg km w")
    show ?thesis
    proof (cases r)
      case None
      with False r have st: "init_step d (None, km, w) alg = (None, km1, w1)"
        by (simp add: init_step_def)
      from None False r show ?thesis by (simp add: st Cons.IH)
    next
      case (Some err)
      with False r have st: "init_step d (None, km, w) alg = (Some (ErrInitKey alg err), km1, w1)"
        by (simp add: init_step_def)
      from Some False r show ?thesis by (simp add: st init_step_failed)
    qed
  qed
qed

lemma InitKeys_stops_spec:
  assumes "foldl (init_step d) (None, km, w) pre = (None, km1, w1)"
    and "map_of (active km1) alg = None"
    and "Rotate d alg km1 w1 = (Some err, km2, w2)"
  shows "InitKeys d (pre @ alg # post) km w = (Some (ErrInitKey alg err), km2, w2)"
proof -
  from assms(2,3) have st: "init_step d (None, km1, w1) alg = (Some (ErrInitKey alg err), km2, w2)"
    by (simp add: init_step_def)
  show ?thesis by (simp add: InitKeys_foldl assms(1) st init_step_failed)
qed

lemma InitKeys_stops_after_active:
  assumes "\<forall>a \<in> set pre. map_of (active km) a \<noteq> None"
    and "map_of (active km) alg = None"
    and "Rotate d alg km w = (Some err, km2, w2)"
  shows "InitKeys d (pre @ alg # post) km w = (Some (ErrInitKey alg err), km2, w2)"
proof -
  have "foldl (init_step d) (None, km, w) pre = (None, km, w)"
    using assms(1)
  proof (induction pre)
    case Nil
    then show ?case by simp
  next
    case (Cons a pre)
    then have "init_step d (None, km, w) a = (None, km, w)" by (simp add: init_step_def)
    with Cons show ?case by simp
  qed
  then show ?thesis using assms(2,3) by (rule InitKeys_stops_spec)
qed

lemma RotateExpired_each:
  assumes "time_Now d w = (now, w1)"
    and "\<forall>p \<in> set (active km). \<exists>b. is_expired (snd p) now = Inr b"
    and "rotate_each d (expired_algs now (active km)) km w1 = (es, km2, w2)"
  shows "RotateExpired d km w = (if es = [] then None else Some (ErrRotationErrors es), km2, w2)"
  using assms
  by (simp add: RotateExpired_def Let_def RotateExpired_loop_each)

lemma b64_test2: "b64 (replicate 12 2) = ''AgICAgICAgICAgIC''"
  by code_simp

lemmas rotate_eval = Rotate_def Rotate_prepare_def generateKID_def generatePrivateKey_def
  marshalPKCS8_def ReloadCache_def parsePrivateKey_def test_deps_def test_policy_def
  test_marshal_def test_parse_def test_rsa_def test_ec_def MockStore_List_def MockStore_Rotate_def
  MockEncryptor_Encrypt_def MockEncryptor_Decrypt_def test_key_def test_ck_def test_newKey_def
  AlgRS256_def AlgES256_def AlgEdDSA_def Let_def b64_test b64_test2

lemma Rotate_RS256_init:
  "Rotate (test_deps test_policy False) AlgRS256 test_manager test_world_ec
     = (None, test_manager_init, test_world_init 2)"
  by (simp add: rotate_eval test_manager_def test_world_ec_def test_world_def
        test_manager_init_def test_world_init_def)

lemma Rotate_BAD_init:
  "Rotate (test_deps test_policy False) ''BAD'' test_manager_init (test_world_init 2)
     = (Some (ErrUnknownAlg ''BAD''), test_manager_init, test_world_init 3)"
  by (simp add: rotate_eval test_world_init_def)

lemma Rotate_BAD1_expired:
  "Rotate (test_deps test_policy False) ''BAD1'' test_manager_expired (test_world []\<lparr>ticks := 1\<rparr>)
     = (Some (ErrUnknownAlg ''BAD1''), test_manager_expired, test_world []\<lparr>ticks := 1, ListCount := 1\<rparr>)"
  by (simp add: rotate_eval test_world_def)

lemma Rotate_RS256_expired:
  "Rotate (test_deps test_policy False) AlgRS256 test_manager_expired
      (test_world []\<lparr>ticks := 1, ListCount := 1\<rparr>)
     = (None, test_manager_rotated2, test_world_rotated2)"
  by (simp add: rotate_eval test_world_def test_manager_rotated2_def test_world_rotated2_def
        test_newKey2_def)

text \<open>
  C10.  \<open>InitKeys\<close> is the step-by-step bootstrap that does nothing once a rotation has
  failed.  When the algorithms before \<open>alg\<close> went through without error (skipped because
  active, or rotated), \<open>alg\<close> has no active key and its rotation fails, \<open>InitKeys\<close>
  returns that error, wrapped, with the manager and the world the failed rotation left,
  whatever algorithms follow: no rotation is attempted for them.  \<open>RotateExpired\<close>, in
  contrast, reads the clock once, rotates every algorithm of its active map whose key
  has expired, one after the other whether or not earlier rotations failed, and returns
  the errors of all failed rotations together (no error when none failed).
\<close>

theorem InitKeys_short_circuits:
  "InitKeys d algs km w = foldl (init_step d) (None, km, w) algs
   \<and> (foldl (init_step d) (None, km, w) pre = (None, km1, w1) \<and> map_of (active km1) alg = None
        \<and> Rotate d alg km1 w1 = (Some err, km2, w2)
      \<longrightarrow> InitKeys d (pre @ alg # post) km w = (Some (ErrInitKey alg err), km2, w2))
   \<and> ((\<forall>a \<in> set pre. map_of (active km) a \<noteq> None) \<and> map_of (active km) alg = None
        \<and> Rotate d alg km w = (Some err, km2, w2)
      \<longrightarrow> InitKeys d (pre @ alg # post) km w = (Some (ErrInitKey alg err), km2, w2))
   \<and> (time_Now d w = (now, w1')
        \<and> (\<forall>p \<in> set (active km). \<exists>b. is_expired (snd p) now = Inr b)
        \<and> rotate_each d (expired_algs now (active km)) km w1' = (es, km3, w3)
      \<longrightarrow> RotateExpired d km w = (if es = [] then None else Some (ErrRotationErrors es), km3, w3))"
proof (intro conjI impI)
  show "InitKeys d algs km w = foldl (init_step d) (None, km, w) algs"
    by (rule InitKeys_foldl)
next
  assume "foldl (init_step d) (None, km, w) pre = (None, km1, w1) \<and> map_of (active km1) alg = None
        \<and> Rotate d alg km1 w1 = (Some err, km2, w2)"
  then have "foldl (init_step d) (None, km, w) pre = (None, km1, w1)"
    "map_of (active km1) alg = None" "Rotate d alg km1 w1 = (Some err, km2, w2)"
    by simp_all
  then show "InitKeys d (pre @ alg # post) km w = (Some (ErrInitKey alg err), km2, w2)"
    by (rule InitKeys_stops_spec)
next
  assume "(\<forall>a \<in> set pre. map_of (active km) a \<noteq> None) \<and> map_of (active km) alg = None
        \<and> Rotate d alg km w = (Some err, km2, w2)"
  then have "\<forall>a \<in> set pre. map_of (active km) a \<noteq> None"
    "map_of (active km) alg = None" "Rotate d alg km w = (Some err, km2, w2)"
    by simp_all
  then show "InitKeys d (pre @ alg # post) km w = (Some (ErrInitKey alg err), km2, w2)"
    by (rule InitKeys_stops_after_active)
next
  assume "time_Now d w = (now, w1')
        \<and> (\<forall>p \<in> set (active km). \<exists>b. is_expired (snd p) now = Inr b)
        \<and> rotate_each d (expired_algs now (active km)) km w1' = (es, km3, w3)"
  then have "time_Now d w = (now, w1')"
    "\<forall>p \<in> set (active km). \<exists>b. is_expired (snd p) now = Inr b"
    "rotate_each d (expired_algs now (active km)) km w1' = (es, km3, w3)"
    by simp_all
  then show "RotateExpired d km w = (if es = [] then None else Some (ErrRotationErrors es), km3, w3)"
    by (rule RotateExpired_each)
qed

text \<open>
  \<open>InitKeys\<close> on ES256 (active, skipped), RS256 (rotated), an unknown algorithm (fails)
  and EdDSA: the store's \<open>Rotate\<close> ran once and EdDSA has no key.  With the unknown
  algorithm ahead of RS256, RS256 is not rotated either.  \<open>RotateExpired\<close> with an
  expired unknown algorithm, an expired RS256 key and a fresh ES256 key: the first
  rotation fails, RS256 is rotated all the same, and the one error is returned.
\<close>

theorem InitKeys_short_circuits_witness:
  "InitKeys (test_deps test_policy False) [AlgES256, AlgRS256, ''BAD'', AlgEdDSA] test_manager test_world_ec
     = (Some (ErrInitKey ''BAD'' (ErrUnknownAlg ''BAD'')), test_manager_init, test_world_init 3)
   \<and> RotateCount (test_world_init 3) = 1
   \<and> map_of (active test_manager_init) AlgEdDSA = None
   \<and> InitKeys (test_deps test_policy False) [AlgES256, ''BAD'', AlgRS256] test_manager test_world_ec
     = (Some (ErrInitKey ''BAD'' (ErrUnknownAlg ''BAD'')), test_manager, test_world_ec\<lparr>ListCount := 1\<rparr>)
   \<and> RotateExpired (test_deps test_policy False) test_manager_expired (test_world [])
     = (Some (ErrRotationErrors [ErrRotate ''BAD1'' (ErrUnknownAlg ''BAD1'')]),
        test_manager_rotated2, test_world_rotated2)
   \<and> map_of (data (store test_world_rotated2)) ''RS256_AgICAgICAgICAgIC'' = Some test_newKey2"
proof (intro conjI)
  let ?d = "test_deps test_policy False"
  have step1: "init_step ?d (None, test_manager, test_world_ec) AlgES256 = (None, test_manager, test_world_ec)"
    by (simp add: init_step_def test_manager_def)
  have step2: "init_step ?d (None, test_manager, test_world_ec) AlgRS256
      = (None, test_manager_init, test_world_init 2)"
    by (simp add: init_step_def Rotate_RS256_init) (simp add: test_manager_def AlgRS256_def AlgES256_def)
  have pre: "foldl (init_step ?d) (None, test_manager, test_world_ec) [AlgES256, AlgRS256]
      = (None, test_manager_init, test_world_init 2)"
    by (simp add: step1 step2)
  have nobad: "map_of (active test_manager_init) ''BAD'' = None"
    by (simp add: test_manager_init_def AlgRS256_def AlgES256_def)
  show "InitKeys ?d [AlgES256, AlgRS256, ''BAD'', AlgEdDSA] test_manager test_world_ec
     = (Some (ErrInitKey ''BAD'' (ErrUnknownAlg ''BAD'')), test_manager_init, test_world_init 3)"
    using InitKeys_short_circuits [where d = ?d and km = test_manager and w = test_world_ec
        and pre = "[AlgES256, AlgRS256]" and ?km1.0 = test_manager_init and ?w1.0 = "test_world_init 2"
        and alg = "''BAD''" and err = "ErrUnknownAlg ''BAD''" and ?km2.0 = test_manager_init
        and ?w2.0 = "test_world_init 3" and post = "[AlgEdDSA]",
        THEN conjunct2, THEN conjunct1, THEN mp, OF conjI [OF pre conjI [OF nobad Rotate_BAD_init]]]
    by simp
  show "RotateCount (test_world_init 3) = 1" by (simp add: test_world_init_def)
  show "map_of (active test_manager_init) AlgEdDSA = None"
    by (simp add: test_manager_init_def AlgRS256_def AlgES256_def AlgEdDSA_def)
  have act: "\<forall>a \<in> set [AlgES256]. map_of (active test_manager) a \<noteq> None"
    by (simp add: test_manager_def)
  have nobad': "map_of (active test_manager) ''BAD'' = None"
    by (simp add: test_manager_def AlgES256_def)
  have rbad: "Rotate ?d ''BAD'' test_manager test_world_ec
      = (Some (ErrUnknownAlg ''BAD''), test_manager, test_world_ec\<lparr>ListCount := 1\<rparr>)"
    by (simp add: rotate_eval test_world_ec_def test_world_def)
  show "InitKeys ?d [AlgES256, ''BAD'', AlgRS256] test_manager test_world_ec
     = (Some (ErrInitKey ''BAD'' (ErrUnknownAlg ''BAD'')), test_manager, test_world_ec\<lparr>ListCount := 1\<rparr>)"
    using InitKeys_short_circuits [where d = ?d and km = test_manager and w = test_world_ec
        and pre = "[AlgES256]" and alg = "''BAD''" and err = "ErrUnknownAlg ''BAD''"
        and ?km2.0 = test_manager and ?w2.0 = "test_world_ec\<lparr>ListCount := 1\<rparr>" and post = "[AlgRS256]",
        THEN conjunct2, THEN conjunct2, THEN conjunct1, THEN mp, OF conjI [OF act conjI [OF nobad' rbad]]]
    by simp
  have now: "time_Now ?d (test_world []) = (0, test_world []\<lparr>ticks := 1\<rparr>)"
    by (simp add: test_deps_def test_world_def)
  have ex: "\<forall>p \<in> set (active test_manager_expired). \<exists>b. is_expired (snd p) 0 = Inr b"
    by (auto simp add: test_manager_expired_def is_expired_def test_ck_def test_key_def)
  have algs: "expired_algs 0 (active test_manager_expired) = [''BAD1'', AlgRS256]"
    by (simp add: expired_algs_def test_manager_expired_def is_expired_def test_ck_def test_key_def)
  have each: "rotate_each ?d (expired_algs 0 (active test_manager_expired)) test_manager_expired
        (test_world []\<lparr>ticks := 1\<rparr>)
      = ([ErrRotate ''BAD1'' (ErrUnknownAlg ''BAD1'')], test_manager_rotated2, test_world_rotated2)"
    by (simp add: algs Rotate_BAD1_expired Rotate_RS256_expired del: One_nat_def)
  show "RotateExpired ?d test_manager_expired (test_world [])
     = (Some (ErrRotationErrors [ErrRotate ''BAD1'' (ErrUnknownAlg ''BAD1'')]),
        test_manager_rotated2, test_world_rotated2)"
    using InitKeys_short_circuits [where d = ?d and km = test_manager_expired and w = "test_world []"
        and now = 0 and ?w1' = "test_world []\<lparr>ticks := 1\<rparr>"
        and es = "[ErrRotate ''BAD1'' (ErrUnknownAlg ''BAD1'')]" and ?km3.0 = test_manager_rotated2
        and ?w3.0 = test_world_rotated2,
        THEN conjunct2, THEN conjunct2, THEN conjunct2, THEN mp, OF conjI [OF now conjI [OF ex each]]]
    by simp
  show "map_of (data (store test_world_rotated2)) ''RS256_AgICAgICAgICAgIC'' = Some test_newKey2"
    by (simp add: test_world_rotated2_def)
qed

subsection \<open>Rotation\<close>

lemma Rotate_prepare_Inr:
  assumes "Rotate_prepare d alg w = (Inr (newKey, oldKey), w6)"
  shows "\<exists>pol w1 w4 w5. policy d w = (Inr pol, w1) \<and> time_Now d w4 = (CreatedAt newKey, w5)
     \<and> ExpiresAt newKey = Some (CreatedAt newKey + TTL pol)
     \<and> IsActive newKey \<and> Alg newKey = alg"
proof -
  obtain r1 w1 where p: "policy d w = (r1, w1)" by (cases "policy d w")
  show ?thesis
  proof (cases r1)
    case (Inl err)
    with assms p show ?thesis by (simp add: Rotate_prepare_def)
  next
    case (Inr pol)
    with assms p show ?thesis
      by (auto simp add: Rotate_prepare_def Let_def split: prod.splits sum.splits; blast)
  qed
qed

lemma Rotate_success_prepare:
  assumes "Rotate d alg km w = (None, km', w')"
  shows "\<exists>newKey oldKey w6 w7. Rotate_prepare d alg w = (Inr (newKey, oldKey), w6)
     \<and> store_Rotate d newKey oldKey w6 = (None, w7) \<and> ReloadCache d km w7 = (None, km', w')"
  using assms by (auto simp add: Rotate_def split: prod.splits sum.splits option.splits)

lemma generateKID_test:
  "generateKID (test_deps pol f) AlgRS256 (test_world kvs\<lparr>ticks := 1\<rparr>)
     = (''RS256_AQEBAQEBAQEBAQEB'', test_world kvs\<lparr>ticks := 2\<rparr>)"
  by (simp add: generateKID_def test_deps_def test_world_def b64_test AlgRS256_def)

lemma Rotate_prepare_test:
  "Rotate_prepare (test_deps (Inr \<lparr>TTL = ttl\<rparr>) False) AlgRS256 (test_world kvs)
     = (Inr (test_newKey ttl, find_oldKey AlgRS256 (map snd kvs)),
        test_world kvs\<lparr>ticks := 2, ListCount := 1\<rparr>)"
  by (simp add: Rotate_prepare_def generateKID_def test_deps_def test_world_def b64_test
        MockStore_List_def generatePrivateKey_def marshalPKCS8_def test_marshal_def test_rsa_def
        MockEncryptor_Encrypt_def test_newKey_def AlgRS256_def)


lemma Rotate_test:
  "Rotate (test_deps (Inr \<lparr>TTL = ttl\<rparr>) False) AlgRS256 empty_manager (test_world [])
     = (None, test_rotated ttl, test_rotated_world ttl)"
proof -
  have "Rotate (test_deps (Inr \<lparr>TTL = ttl\<rparr>) False) AlgRS256 empty_manager (test_world [])
      = (case store_Rotate (test_deps (Inr \<lparr>TTL = ttl\<rparr>) False) (test_newKey ttl) None
               (test_world []\<lparr>ticks := 2, ListCount := 1\<rparr>) of
           (Some err, w7) \<Rightarrow> (Some err, empty_manager, w7)
         | (None, w7) \<Rightarrow> ReloadCache (test_deps (Inr \<lparr>TTL = ttl\<rparr>) False) empty_manager w7)"
    by (simp add: Rotate_def Rotate_prepare_test)
  also have "\<dots> = (None, test_rotated ttl, test_rotated_world ttl)"
    by (simp add: ReloadCache_def test_deps_def test_world_def test_newKey_def MockStore_Rotate_def
          MockStore_List_def MockEncryptor_Decrypt_def parsePrivateKey_def test_parse_def
          test_rotated_def test_rotated_world_def test_ck_def empty_manager_def Let_def)
  finally show ?thesis .
qed

text \<open>
  C7 (as amended).  Every successful \<open>Rotate\<close> built its new record from the
  configuration the policy returned in this call and from one reading of the clock: the
  record's \<open>CreatedAt\<close> is that reading, its \<open>ExpiresAt\<close> is \<open>CreatedAt\<close> plus the
  policy's TTL, and this record is the one handed to the store.  \<open>ExpiresAt\<close> lies strictly
  after \<open>CreatedAt\<close> exactly when the TTL is positive.
\<close>

theorem Rotate_expiry:
  "Rotate d alg km w = (None, km', w') \<longrightarrow>
     (\<exists>newKey oldKey w6 w7 pol w1 w4 w5.
        Rotate_prepare d alg w = (Inr (newKey, oldKey), w6)
        \<and> store_Rotate d newKey oldKey w6 = (None, w7)
        \<and> policy d w = (Inr pol, w1)
        \<and> time_Now d w4 = (CreatedAt newKey, w5)
        \<and> ExpiresAt newKey = Some (CreatedAt newKey + TTL pol)
        \<and> (CreatedAt newKey < CreatedAt newKey + TTL pol \<longleftrightarrow> 0 < TTL pol))"
proof
  assume ok: "Rotate d alg km w = (None, km', w')"
  from Rotate_success_prepare [OF ok] obtain newKey oldKey w6 w7 where
    p: "Rotate_prepare d alg w = (Inr (newKey, oldKey), w6)"
    and s: "store_Rotate d newKey oldKey w6 = (None, w7)"
    by blast
  from Rotate_prepare_Inr [OF p] obtain pol w1 w4 w5 where
    "policy d w = (Inr pol, w1)" "time_Now d w4 = (CreatedAt newKey, w5)"
    "ExpiresAt newKey = Some (CreatedAt newKey + TTL pol)"
    by blast
  moreover have "CreatedAt newKey < CreatedAt newKey + TTL pol \<longleftrightarrow> 0 < TTL pol" by simp
  ultimately show "\<exists>newKey oldKey w6 w7 pol w1 w4 w5.
        Rotate_prepare d alg w = (Inr (newKey, oldKey), w6)
        \<and> store_Rotate d newKey oldKey w6 = (None, w7)
        \<and> policy d w = (Inr pol, w1)
        \<and> time_Now d w4 = (CreatedAt newKey, w5)
        \<and> ExpiresAt newKey = Some (CreatedAt newKey + TTL pol)
        \<and> (CreatedAt newKey < CreatedAt newKey + TTL pol \<longleftrightarrow> 0 < TTL pol)"
    using p s by blast
qed

text \<open>A rotation of RS256 on the empty test world with a TTL of 3600.\<close>

theorem Rotate_expiry_witness:
  "Rotate (test_deps (Inr \<lparr>TTL = 3600\<rparr>) False) AlgRS256 empty_manager (test_world [])
     = (None, test_rotated 3600, test_rotated_world 3600)
   \<and> (\<exists>newKey oldKey w6 w7 pol w1 w4 w5.
        Rotate_prepare (test_deps (Inr \<lparr>TTL = 3600\<rparr>) False) AlgRS256 (test_world [])
          = (Inr (newKey, oldKey), w6)
        \<and> store_Rotate (test_deps (Inr \<lparr>TTL = 3600\<rparr>) False) newKey oldKey w6 = (None, w7)
        \<and> policy (test_deps (Inr \<lparr>TTL = 3600\<rparr>) False) (test_world []) = (Inr pol, w1)
        \<and> time_Now (test_deps (Inr \<lparr>TTL = 3600\<rparr>) False) w4 = (CreatedAt newKey, w5)
        \<and> ExpiresAt newKey = Some (CreatedAt newKey + TTL pol)
        \<and> (CreatedAt newKey < CreatedAt newKey + TTL pol \<longleftrightarrow> 0 < TTL pol))
   \<and> CreatedAt (test_newKey 3600) = 0 \<and> ExpiresAt (test_newKey 3600) = Some 3600"
proof (intro conjI)
  show r: "Rotate (test_deps (Inr \<lparr>TTL = 3600\<rparr>) False) AlgRS256 empty_manager (test_world [])
     = (None, test_rotated 3600, test_rotated_world 3600)"
    by (rule Rotate_test)
  show "\<exists>newKey oldKey w6 w7 pol w1 w4 w5.
        Rotate_prepare (test_deps (Inr \<lparr>TTL = 3600\<rparr>) False) AlgRS256 (test_world [])
          = (Inr (newKey, oldKey), w6)
        \<and> store_Rotate (test_deps (Inr \<lparr>TTL = 3600\<rparr>) False) newKey oldKey w6 = (None, w7)
        \<and> policy (test_deps (Inr \<lparr>TTL = 3600\<rparr>) False) (test_world []) = (Inr pol, w1)
        \<and> time_Now (test_deps (Inr \<lparr>TTL = 3600\<rparr>) False) w4 = (CreatedAt newKey, w5)
        \<and> ExpiresAt newKey = Some (CreatedAt newKey + TTL pol)
        \<and> (CreatedAt newKey < CreatedAt newKey + TTL pol \<longleftrightarrow> 0 < TTL pol)"
    by (rule Rotate_expiry [THEN mp, OF r])
  show "CreatedAt (test_newKey 3600) = 0" "ExpiresAt (test_newKey 3600) = Some 3600"
    by (simp_all add: test_newKey_def)
qed

text \<open>
  C7 as stated fails when the policy returns a TTL of zero: the rotation succeeds, and the
  record it stores as active expires at the instant of its creation, not after it.
\<close>

theorem Rotate_zero_TTL_not_in_future:
  "Rotate (test_deps (Inr \<lparr>TTL = 0\<rparr>) False) AlgRS256 empty_manager (test_world [])
     = (None, test_rotated 0, test_rotated_world 0)
   \<and> map_of (data (store (test_rotated_world 0))) ''RS256_AQEBAQEBAQEBAQEB'' = Some (test_newKey 0)
   \<and> IsActive (test_newKey 0)
   \<and> CreatedAt (test_newKey 0) = 0 \<and> ExpiresAt (test_newKey 0) = Some 0
   \<and> \<not> CreatedAt (test_newKey 0) < the (ExpiresAt (test_newKey 0))"
  by (simp add: Rotate_test) (simp add: test_rotated_world_def test_newKey_def)

subsection \<open>Rotation on the mock store\<close>

lemma filter_update_none:
  assumes "\<forall>p \<in> set xs. \<not> P (snd p)" and "P v"
  shows "filter P (map snd (AList.update i v xs)) = [v]"
  using assms
proof (induction xs)
  case Nil
  then show ?case by simp
next
  case (Cons x xs)
  then show ?case by (cases x) auto
qed

lemma find_oldKey_None:
  assumes "filter (active_for alg) ks = []"
  shows "find_oldKey alg ks = None"
  using assms by (induction ks) (auto simp add: active_for_def split: if_splits)

lemma find_oldKey_Some:
  assumes "filter (active_for alg) ks = k # rest"
  shows "find_oldKey alg ks = Some (k\<lparr>IsActive := False\<rparr>)"
  using assms by (induction ks) (auto simp add: active_for_def split: if_splits)

lemma update_deactivates:
  assumes "distinct (map fst xs)" and "(i, k) \<in> set xs"
    and "filter P (map snd xs) = [k]" and "\<not> P k'"
  shows "\<forall>p \<in> set (AList.update i k' xs). \<not> P (snd p)"
  using assms
proof (induction xs)
  case Nil
  then show ?case by simp
next
  case (Cons x xs)
  obtain j v where x: "x = (j, v)" by (cases x)
  have Pk: "P k"
  proof -
    have "k \<in> set [k]" by simp
    then have "k \<in> set (filter P (map snd (x # xs)))" by (simp only: Cons.prems(3))
    then have "k \<in> set (map snd (x # xs)) \<and> P k" by (simp only: set_filter mem_Collect_eq)
    then show ?thesis by (rule conjunct2)
  qed
  show ?case
  proof (cases "j = i")
    case True
    with Cons.prems(1,2) x have vk: "v = k"
      by (auto simp add: rev_image_eqI)
    with Cons.prems(3) x Pk have "filter P (map snd xs) = []" by simp
    then have "\<forall>p \<in> set xs. \<not> P (snd p)" by (auto simp add: filter_empty_conv)
    with True x Cons.prems(4) show ?thesis by simp
  next
    case False
    with Cons.prems(2) x have mem: "(i, k) \<in> set xs" by auto
    have nPv: "\<not> P v"
    proof
      assume "P v"
      with Cons.prems(3) x have "filter P (map snd xs) = []" by simp
      moreover from mem have "k \<in> set (map snd xs)" by (auto simp add: rev_image_eqI)
      ultimately show False using Pk by (auto simp add: filter_empty_conv)
    qed
    with Cons.prems(3) x have f: "filter P (map snd xs) = [k]" by simp
    from Cons.prems(1) have d: "distinct (map fst xs)" by simp
    from Cons.IH [OF d mem f Cons.prems(4)] False x nPv show ?thesis by simp
  qed
qed

lemma update_keeps_wf:
  assumes "distinct (map fst xs)" and "list_all (\<lambda>p. KID (snd p) = fst p) xs" and "KID v = i"
  shows "distinct (map fst (AList.update i v xs)) \<and> list_all (\<lambda>p. KID (snd p) = fst p) (AList.update i v xs)"
proof
  show "distinct (map fst (AList.update i v xs))" using assms(1) by (rule distinct_update)
  show "list_all (\<lambda>p. KID (snd p) = fst p) (AList.update i v xs)"
    using assms(2,3) by (induction xs) auto
qed

lemma wf_store_member:
  assumes "wf_store s" and "k \<in> set (map snd (data s))"
  shows "(KID k, k) \<in> set (data s) \<and> map_of (data s) (KID k) = Some k"
proof -
  from assms(2) obtain i where m: "(i, k) \<in> set (data s)" by auto
  from assms(1) m have "KID k = i" by (auto simp add: wf_store_def list_all_iff)
  with m have "(KID k, k) \<in> set (data s)" by simp
  moreover from assms(1) this have "map_of (data s) (KID k) = Some k"
    by (simp add: wf_store_def)
  ultimately show ?thesis by simp
qed

lemma MockStore_Rotate_one_active:
  assumes wf: "wf_store s"
    and one: "length (filter (active_for alg) (map snd (data s))) \<le> 1"
    and nk: "active_for alg newKey"
  shows "filter (active_for alg)
           (map snd (data (MockStore_Rotate newKey (find_oldKey alg (map snd (data s))) s))) = [newKey]
     \<and> wf_store (MockStore_Rotate newKey (find_oldKey alg (map snd (data s))) s)"
proof (cases "filter (active_for alg) (map snd (data s))")
  case Nil
  then have old: "find_oldKey alg (map snd (data s)) = None" by (rule find_oldKey_None)
  from Nil have none: "\<forall>p \<in> set (data s). \<not> active_for alg (snd p)"
    by (auto simp add: filter_empty_conv)
  have "filter (active_for alg) (map snd (AList.update (KID newKey) newKey (data s))) = [newKey]"
    using none nk by (rule filter_update_none)
  moreover have "distinct (map fst (AList.update (KID newKey) newKey (data s)))
      \<and> list_all (\<lambda>p. KID (snd p) = fst p) (AList.update (KID newKey) newKey (data s))"
    using wf by (intro update_keeps_wf) (simp_all add: wf_store_def)
  ultimately show ?thesis by (simp add: old MockStore_Rotate_def wf_store_def)
next
  case (Cons k rest)
  with one have rest: "rest = []" by simp
  with Cons have f: "filter (active_for alg) (map snd (data s)) = [k]" by simp
  from Cons have old: "find_oldKey alg (map snd (data s)) = Some (k\<lparr>IsActive := False\<rparr>)"
    by (rule find_oldKey_Some)
  have "k \<in> set (filter (active_for alg) (map snd (data s)))" using f by simp
  then have kin: "k \<in> set (map snd (data s))" by simp
  from wf_store_member [OF wf kin] have mem: "(KID k, k) \<in> set (data s)"
    and mo: "map_of (data s) (KID k) = Some k" by simp_all
  let ?d1 = "AList.update (KID k) (k\<lparr>IsActive := False\<rparr>) (data s)"
  have dist: "distinct (map fst (data s))" using wf by (simp add: wf_store_def)
  have none: "\<forall>p \<in> set ?d1. \<not> active_for alg (snd p)"
    using dist mem f by (rule update_deactivates) (simp add: active_for_def)
  have wf1: "distinct (map fst ?d1) \<and> list_all (\<lambda>p. KID (snd p) = fst p) ?d1"
    using wf by (intro update_keeps_wf) (simp_all add: wf_store_def)
  have "filter (active_for alg) (map snd (AList.update (KID newKey) newKey ?d1)) = [newKey]"
    using none nk by (rule filter_update_none)
  moreover have "distinct (map fst (AList.update (KID newKey) newKey ?d1))
      \<and> list_all (\<lambda>p. KID (snd p) = fst p) (AList.update (KID newKey) newKey ?d1)"
    using wf1 by (intro update_keeps_wf) simp_all
  ultimately show ?thesis by (simp add: old mo MockStore_Rotate_def wf_store_def)
qed

lemma MockStore_Rotate_old_inactive:
  assumes wf: "wf_store s"
    and one: "length (filter (active_for alg) (map snd (data s))) \<le> 1"
    and k: "k \<in> set (map snd (data s))" and act: "active_for alg k" and neq: "KID k \<noteq> KID newKey"
  shows "map_of (data (MockStore_Rotate newKey (find_oldKey alg (map snd (data s))) s)) (KID k)
     = Some (k\<lparr>IsActive := False\<rparr>)"
proof -
  from k act have "k \<in> set (filter (active_for alg) (map snd (data s)))" by simp
  with one have f: "filter (active_for alg) (map snd (data s)) = [k]"
    by (cases "filter (active_for alg) (map snd (data s))") auto
  then have old: "find_oldKey alg (map snd (data s)) = Some (k\<lparr>IsActive := False\<rparr>)"
    by (rule find_oldKey_Some)
  from wf_store_member [OF wf k] have mo: "map_of (data s) (KID k) = Some k" by simp
  show ?thesis
    using neq by (simp add: old mo MockStore_Rotate_def update_conv')
qed


lemma with_MockStore_sel:
  "store_List (with_MockStore d) (s, e) = (MockStore_List s, (s, e))"
  "store_Rotate (with_MockStore d) newKey old (s, e) = (None, (MockStore_Rotate newKey old s, e))"
  "enc_Encrypt (with_MockStore d) b (s, e) = (case enc_Encrypt d b e of (r, e') \<Rightarrow> (r, (s, e')))"
  "enc_Decrypt (with_MockStore d) ek (s, e) = (case enc_Decrypt d ek e of (r, e') \<Rightarrow> (r, (s, e')))"
  "policy (with_MockStore d) (s, e) = (case policy d e of (r, e') \<Rightarrow> (r, (s, e')))"
  "time_Now (with_MockStore d) (s, e) = (case time_Now d e of (r, e') \<Rightarrow> (r, (s, e')))"
  "rand_Read (with_MockStore d) n (s, e) = (case rand_Read d n e of (r, e') \<Rightarrow> (r, (s, e')))"
  "rsa_GenerateKey (with_MockStore d) bits (s, e) = (case rsa_GenerateKey d bits e of (r, e') \<Rightarrow> (r, (s, e')))"
  "ecdsa_GenerateKey (with_MockStore d) (s, e) = (case ecdsa_GenerateKey d e of (r, e') \<Rightarrow> (r, (s, e')))"
  "ed25519_GenerateKey (with_MockStore d) (s, e) = (case ed25519_GenerateKey d e of (r, e') \<Rightarrow> (r, (s, e')))"
  "time_Format (with_MockStore d) = time_Format d"
  "x509_MarshalPKCS8PrivateKey (with_MockStore d) = x509_MarshalPKCS8PrivateKey d"
  "x509_ParsePKCS8PrivateKey (with_MockStore d) = x509_ParsePKCS8PrivateKey d"
  by (simp_all add: with_MockStore_def beside_def)

lemma generateKID_beside:
  "generateKID (with_MockStore d) alg (s, e) = (case generateKID d alg e of (kid, e') \<Rightarrow> (kid, (s, e')))"
  by (simp add: generateKID_def with_MockStore_sel split: prod.splits option.splits)

lemma generatePrivateKey_beside:
  "generatePrivateKey (with_MockStore d) alg (s, e)
     = (case generatePrivateKey d alg e of (r, e') \<Rightarrow> (r, (s, e')))"
  by (simp add: generatePrivateKey_def with_MockStore_sel)

lemma marshalPKCS8_beside: "marshalPKCS8 (with_MockStore d) p = marshalPKCS8 d p"
  by (simp add: marshalPKCS8_def with_MockStore_sel)

lemma parsePrivateKey_beside: "parsePrivateKey (with_MockStore d) der = parsePrivateKey d der"
  by (simp add: parsePrivateKey_def with_MockStore_sel)

lemma Rotate_prepare_beside:
  assumes "Rotate_prepare (with_MockStore d) alg (s, e) = (r, w6)"
  shows "fst w6 = s \<and>
     (\<forall>nk ok. r = Inr (nk, ok) \<longrightarrow>
        ok = find_oldKey alg (map snd (data s)) \<and> active_for alg nk)"
  using assms
  by (auto simp add: Rotate_prepare_def with_MockStore_sel generateKID_beside
        generatePrivateKey_beside marshalPKCS8_beside MockStore_List_def active_for_def Let_def
      split: prod.splits sum.splits)

lemma ReloadCache_loop_beside:
  assumes "ReloadCache_loop (with_MockStore d) keys nc na (s, e) = (r, w')"
  shows "fst w' = s"
  using assms
proof (induction keys arbitrary: nc na e)
  case Nil
  then show ?case by auto
next
  case (Cons k keys)
  obtain r1 e1 where dec: "enc_Decrypt d (EncryptedKey k) e = (r1, e1)"
    by (cases "enc_Decrypt d (EncryptedKey k) e")
  show ?case
  proof (cases r1)
    case (Inl err)
    with Cons.prems dec show ?thesis by (auto simp add: with_MockStore_sel)
  next
    case (Inr privBytes)
    note pb = this
    show ?thesis
    proof (cases "parsePrivateKey d privBytes")
      case (Inl err)
      with Cons.prems dec pb show ?thesis
        by (auto simp add: with_MockStore_sel parsePrivateKey_beside)
    next
      case (Inr p)
      with Cons.prems dec pb show ?thesis
        by (auto simp add: with_MockStore_sel parsePrivateKey_beside Let_def dest: Cons.IH)
    qed
  qed
qed

lemma ReloadCache_beside:
  assumes "ReloadCache (with_MockStore d) km (s, e) = (r, km', w')"
  shows "fst w' = s"
  using assms
  by (auto simp add: ReloadCache_def with_MockStore_sel MockStore_List_def
      split: prod.splits sum.splits dest: ReloadCache_loop_beside)

lemma Rotate_with_MockStore:
  assumes "Rotate (with_MockStore d) alg km (s, e) = (None, km', (s', e'))"
  shows "\<exists>nk ok w6. Rotate_prepare (with_MockStore d) alg (s, e) = (Inr (nk, ok), w6)
     \<and> active_for alg nk
     \<and> s' = MockStore_Rotate nk (find_oldKey alg (map snd (data s))) s"
proof -
  from Rotate_success_prepare [OF assms] obtain nk ok w6 w7 where
    p: "Rotate_prepare (with_MockStore d) alg (s, e) = (Inr (nk, ok), w6)"
    and sr: "store_Rotate (with_MockStore d) nk ok w6 = (None, w7)"
    and rl: "ReloadCache (with_MockStore d) km w7 = (None, km', (s', e'))"
    by blast
  from Rotate_prepare_beside [OF p] have w6: "fst w6 = s"
    and ok: "ok = find_oldKey alg (map snd (data s))" and act: "active_for alg nk"
    by simp_all
  obtain e6 where w6': "w6 = (s, e6)" using w6 by (cases w6) simp
  from sr w6' have w7: "w7 = (MockStore_Rotate nk ok s, e6)" by (simp add: with_MockStore_sel)
  from rl w7 have "ReloadCache (with_MockStore d) km (MockStore_Rotate nk ok s, e6) = (None, km', (s', e'))"
    by simp
  then have "fst (s', e') = MockStore_Rotate nk ok s"
    by (rule ReloadCache_beside)
  with p act ok show ?thesis by auto
qed

lemma Rotate_prepare_beside_test:
  "Rotate_prepare (with_MockStore (test_deps (Inr \<lparr>TTL = ttl\<rparr>) False)) AlgRS256 (\<lparr>data = kvs\<rparr>, test_world [])
     = (Inr (test_newKey ttl, find_oldKey AlgRS256 (map snd kvs)),
        (\<lparr>data = kvs\<rparr>, test_world []\<lparr>ticks := 2\<rparr>))"
  by (simp add: Rotate_prepare_def with_MockStore_sel generateKID_beside generatePrivateKey_beside
        marshalPKCS8_beside generateKID_def test_deps_def test_world_def b64_test
        MockStore_List_def generatePrivateKey_def marshalPKCS8_def test_marshal_def test_rsa_def
        MockEncryptor_Encrypt_def test_newKey_def AlgRS256_def)

lemmas reload_beside_eval = ReloadCache_def with_MockStore_sel parsePrivateKey_beside
  MockStore_List_def MockStore_Rotate_def test_deps_def test_world_def test_newKey_def
  test_key_def MockEncryptor_Decrypt_def parsePrivateKey_def test_parse_def test_ck_def
  empty_manager_def AlgRS256_def Let_def

text \<open>
  C2 (as amended).  On a well-formed \<open>MockStore\<close> that holds at most one active record
  for \<open>alg\<close>, with any other collaborators, after a successful \<open>Rotate alg\<close> exactly one
  stored record for \<open>alg\<close> is active, the record the rotation created; a record for
  \<open>alg\<close> that was active before is stored inactive (unless the new record took its id);
  and the store is well formed again.
\<close>

theorem Rotate_one_active:
  "wf_store s \<and> length (filter (active_for alg) (map snd (data s))) \<le> 1
     \<and> Rotate (with_MockStore d) alg km (s, e) = (None, km', (s', e'))
   \<longrightarrow> (\<exists>newKey oldKey w6.
         Rotate_prepare (with_MockStore d) alg (s, e) = (Inr (newKey, oldKey), w6)
         \<and> filter (active_for alg) (map snd (data s')) = [newKey]
         \<and> (\<forall>k \<in> set (map snd (data s)). active_for alg k \<and> KID k \<noteq> KID newKey
               \<longrightarrow> map_of (data s') (KID k) = Some (k\<lparr>IsActive := False\<rparr>))
         \<and> wf_store s')"
proof
  assume a: "wf_store s \<and> length (filter (active_for alg) (map snd (data s))) \<le> 1
     \<and> Rotate (with_MockStore d) alg km (s, e) = (None, km', (s', e'))"
  then have wf: "wf_store s" and one: "length (filter (active_for alg) (map snd (data s))) \<le> 1"
    and rot: "Rotate (with_MockStore d) alg km (s, e) = (None, km', (s', e'))"
    by simp_all
  from Rotate_with_MockStore [OF rot] obtain nk ok w6 where
    p: "Rotate_prepare (with_MockStore d) alg (s, e) = (Inr (nk, ok), w6)"
    and act: "active_for alg nk"
    and s': "s' = MockStore_Rotate nk (find_oldKey alg (map snd (data s))) s"
    by blast
  from MockStore_Rotate_one_active [OF wf one act] s'
  have f: "filter (active_for alg) (map snd (data s')) = [nk]" and wf': "wf_store s'"
    by simp_all
  have old: "\<forall>k \<in> set (map snd (data s)). active_for alg k \<and> KID k \<noteq> KID nk
               \<longrightarrow> map_of (data s') (KID k) = Some (k\<lparr>IsActive := False\<rparr>)"
    using MockStore_Rotate_old_inactive [OF wf one] s' by blast
  from p f old wf' show "\<exists>newKey oldKey w6.
         Rotate_prepare (with_MockStore d) alg (s, e) = (Inr (newKey, oldKey), w6)
         \<and> filter (active_for alg) (map snd (data s')) = [newKey]
         \<and> (\<forall>k \<in> set (map snd (data s)). active_for alg k \<and> KID k \<noteq> KID newKey
               \<longrightarrow> map_of (data s') (KID k) = Some (k\<lparr>IsActive := False\<rparr>))
         \<and> wf_store s'"
    by blast
qed

text \<open>A store with one active RS256 record \<open>old\<close>: after the rotation only the new record is active.\<close>

theorem Rotate_one_active_witness:
  "Rotate (with_MockStore (test_deps (Inr \<lparr>TTL = 3600\<rparr>) False)) AlgRS256 empty_manager
      (\<lparr>data = [(''old'', test_old ''old'' True)]\<rparr>, test_world [])
     = (None,
        \<lparr>active = [(AlgRS256, Some (test_ck (test_newKey 3600) test_rsa))],
         cache = [(''old'', Some (test_ck (test_old ''old'' False) test_rsa)),
                  (''RS256_AQEBAQEBAQEBAQEB'', Some (test_ck (test_newKey 3600) test_rsa))]\<rparr>,
        (\<lparr>data = [(''old'', test_old ''old'' False), (''RS256_AQEBAQEBAQEBAQEB'', test_newKey 3600)]\<rparr>,
         test_world []\<lparr>ticks := 2\<rparr>))
   \<and> (\<exists>newKey oldKey w6.
         Rotate_prepare (with_MockStore (test_deps (Inr \<lparr>TTL = 3600\<rparr>) False)) AlgRS256
            (\<lparr>data = [(''old'', test_old ''old'' True)]\<rparr>, test_world []) = (Inr (newKey, oldKey), w6)
         \<and> filter (active_for AlgRS256)
              (map snd [(''old'', test_old ''old'' False), (''RS256_AQEBAQEBAQEBAQEB'', test_newKey 3600)])
            = [newKey]
         \<and> (\<forall>k \<in> set (map snd [(''old'', test_old ''old'' True)]). active_for AlgRS256 k \<and> KID k \<noteq> KID newKey
               \<longrightarrow> map_of [(''old'', test_old ''old'' False), (''RS256_AQEBAQEBAQEBAQEB'', test_newKey 3600)] (KID k)
                     = Some (k\<lparr>IsActive := False\<rparr>))
         \<and> wf_store \<lparr>data = [(''old'', test_old ''old'' False), (''RS256_AQEBAQEBAQEBAQEB'', test_newKey 3600)]\<rparr>)
   \<and> filter (active_for AlgRS256)
        (map snd [(''old'', test_old ''old'' False), (''RS256_AQEBAQEBAQEBAQEB'', test_newKey 3600)])
      = [test_newKey 3600]"
proof (intro conjI)
  let ?d = "with_MockStore (test_deps (Inr \<lparr>TTL = 3600\<rparr>) False)"
  let ?s = "\<lparr>data = [(''old'', test_old ''old'' True)]\<rparr>"
  let ?s' = "\<lparr>data = [(''old'', test_old ''old'' False), (''RS256_AQEBAQEBAQEBAQEB'', test_newKey 3600)]\<rparr>"
  let ?km' = "\<lparr>active = [(AlgRS256, Some (test_ck (test_newKey 3600) test_rsa))],
         cache = [(''old'', Some (test_ck (test_old ''old'' False) test_rsa)),
                  (''RS256_AQEBAQEBAQEBAQEB'', Some (test_ck (test_newKey 3600) test_rsa))]\<rparr>"
  have wf: "wf_store ?s" by (simp add: wf_store_def test_old_def test_key_def)
  have one: "length (filter (active_for AlgRS256) (map snd (data ?s))) \<le> 1" by simp
  show rot: "Rotate ?d AlgRS256 empty_manager (?s, test_world [])
      = (None, ?km', (?s', test_world []\<lparr>ticks := 2\<rparr>))"
    by (simp add: Rotate_def Rotate_prepare_beside_test)
       (simp add: reload_beside_eval test_old_def)
  have "\<exists>newKey oldKey w6.
         Rotate_prepare ?d AlgRS256 (?s, test_world []) = (Inr (newKey, oldKey), w6)
         \<and> filter (active_for AlgRS256) (map snd (data ?s')) = [newKey]
         \<and> (\<forall>k \<in> set (map snd (data ?s)). active_for AlgRS256 k \<and> KID k \<noteq> KID newKey
               \<longrightarrow> map_of (data ?s') (KID k) = Some (k\<lparr>IsActive := False\<rparr>))
         \<and> wf_store ?s'"
    by (rule Rotate_one_active [THEN mp, OF conjI [OF wf conjI [OF one rot]]])
  then show "\<exists>newKey oldKey w6.
         Rotate_prepare ?d AlgRS256 (?s, test_world []) = (Inr (newKey, oldKey), w6)
         \<and> filter (active_for AlgRS256) (map snd [(''old'', test_old ''old'' False), (''RS256_AQEBAQEBAQEBAQEB'', test_newKey 3600)]) = [newKey]
         \<and> (\<forall>k \<in> set (map snd [(''old'', test_old ''old'' True)]). active_for AlgRS256 k \<and> KID k \<noteq> KID newKey
               \<longrightarrow> map_of [(''old'', test_old ''old'' False), (''RS256_AQEBAQEBAQEBAQEB'', test_newKey 3600)] (KID k)
                     = Some (k\<lparr>IsActive := False\<rparr>))
         \<and> wf_store ?s'"
    by simp
  show "filter (active_for AlgRS256)
        (map snd [(''old'', test_old ''old'' False), (''RS256_AQEBAQEBAQEBAQEB'', test_newKey 3600)])
      = [test_newKey 3600]"
    by (simp add: active_for_def test_old_def test_key_def test_newKey_def)
qed

text \<open>
  C2 as stated, for every store state, fails on a store with two active RS256 records
  \<open>a\<close> and \<open>b\<close>: \<open>Rotate\<close> deactivates the first one it meets and stops looking, so
  \<open>b\<close> stays active beside the new record.
\<close>

theorem Rotate_two_active_counterexample:
  "wf_store \<lparr>data = [(''a'', test_old ''a'' True), (''b'', test_old ''b'' True)]\<rparr>
   \<and> Rotate (with_MockStore (test_deps (Inr \<lparr>TTL = 3600\<rparr>) False)) AlgRS256 empty_manager
      (\<lparr>data = [(''a'', test_old ''a'' True), (''b'', test_old ''b'' True)]\<rparr>, test_world [])
     = (None,
        \<lparr>active = [(AlgRS256, Some (test_ck (test_newKey 3600) test_rsa))],
         cache = [(''a'', Some (test_ck (test_old ''a'' False) test_rsa)),
                  (''b'', Some (test_ck (test_old ''b'' True) test_rsa)),
                  (''RS256_AQEBAQEBAQEBAQEB'', Some (test_ck (test_newKey 3600) test_rsa))]\<rparr>,
        (\<lparr>data = [(''a'', test_old ''a'' False), (''b'', test_old ''b'' True),
                  (''RS256_AQEBAQEBAQEBAQEB'', test_newKey 3600)]\<rparr>,
         test_world []\<lparr>ticks := 2\<rparr>))
   \<and> filter (active_for AlgRS256)
        (map snd [(''a'', test_old ''a'' False), (''b'', test_old ''b'' True),
                  (''RS256_AQEBAQEBAQEBAQEB'', test_newKey 3600)])
      = [test_old ''b'' True, test_newKey 3600]
   \<and> test_old ''b'' True \<noteq> test_newKey 3600"
proof (intro conjI)
  show "wf_store \<lparr>data = [(''a'', test_old ''a'' True), (''b'', test_old ''b'' True)]\<rparr>"
    by (simp add: wf_store_def test_old_def test_key_def)
  show "Rotate (with_MockStore (test_deps (Inr \<lparr>TTL = 3600\<rparr>) False)) AlgRS256 empty_manager
      (\<lparr>data = [(''a'', test_old ''a'' True), (''b'', test_old ''b'' True)]\<rparr>, test_world [])
     = (None,
        \<lparr>active = [(AlgRS256, Some (test_ck (test_newKey 3600) test_rsa))],
         cache = [(''a'', Some (test_ck (test_old ''a'' False) test_rsa)),
                  (''b'', Some (test_ck (test_old ''b'' True) test_rsa)),
                  (''RS256_AQEBAQEBAQEBAQEB'', Some (test_ck (test_newKey 3600) test_rsa))]\<rparr>,
        (\<lparr>data = [(''a'', test_old ''a'' False), (''b'', test_old ''b'' True),
                  (''RS256_AQEBAQEBAQEBAQEB'', test_newKey 3600)]\<rparr>,
         test_world []\<lparr>ticks := 2\<rparr>))"
    by (simp add: Rotate_def Rotate_prepare_beside_test)
       (simp add: reload_beside_eval test_old_def)
  show "filter (active_for AlgRS256)
        (map snd [(''a'', test_old ''a'' False), (''b'', test_old ''b'' True),
                  (''RS256_AQEBAQEBAQEBAQEB'', test_newKey 3600)])
      = [test_old ''b'' True, test_newKey 3600]"
    by (simp add: active_for_def test_old_def test_key_def test_newKey_def)
  show "test_old ''b'' True \<noteq> test_newKey 3600"
    by (simp add: test_old_def test_key_def test_newKey_def)
qed

end
